theory Spec2Isabelle
  imports Complex_Main "HOL-Library.Word"
begin

section \<open>The benchmark script \<^verbatim>\<open>benchmark.py\<close>: data model\<close>

text \<open>
  The script reads files, encrypts them with two AEAD primitives of the
  \<^verbatim>\<open>cryptography\<close> package, writes the ciphertexts and reports timings.
  Everything it does beyond computing values is an effect on the operating system:
  the file system, the random source, three clocks and the terminal. The model
  threads a \<open>world\<close> through every function; each call of the operating system or
  of a library is one function on the world, and each such function also appends the
  call to the \<open>trace\<close> of the world, in program order. The trace is never read by the
  program; it is what the theorems about the order of effects speak of.
\<close>

type_synonym byte = "8 word"
type_synonym bytes = "byte list"

text \<open>
  A \<^verbatim>\<open>pathlib.Path\<close> is the tuple of its \<^verbatim>\<open>parts\<close>: \<^verbatim>\<open>Path("/a/b").parts\<close> is
  \<^verbatim>\<open>('/', 'a', 'b')\<close> and \<^verbatim>\<open>Path(".").parts\<close> is \<^verbatim>\<open>()\<close>.
\<close>

type_synonym path = "string list"

definition is_root :: "string \<Rightarrow> bool" where
  "is_root s \<longleftrightarrow> s = ''/'' \<or> s = ''//''"

text \<open>\<^verbatim>\<open>Path.name\<close>: the last part, or the empty string when the path is only an anchor.\<close>

definition path_name :: "path \<Rightarrow> string" where
  "path_name p =
     (case p of
        [] \<Rightarrow> ''''
      | [s] \<Rightarrow> (if is_root s then '''' else s)
      | _ \<Rightarrow> last p)"

fun join_parts :: "string list \<Rightarrow> string" where
  "join_parts [] = ''''"
| "join_parts [s] = s"
| "join_parts (s # t # ss) = s @ ''/'' @ join_parts (t # ss)"

text \<open>\<^verbatim>\<open>str(path)\<close>.\<close>

definition path_str :: "path \<Rightarrow> string" where
  "path_str p =
     (case p of
        [] \<Rightarrow> ''.''
      | s # ss \<Rightarrow> (if is_root s then s @ join_parts ss else join_parts (s # ss)))"

text \<open>The subclasses of \<^verbatim>\<open>Exception\<close> that the script or its libraries raise.\<close>

datatype error =
    FileNotFoundError
  | NotADirectoryError
  | IsADirectoryError
  | FileExistsError
  | ValueError string
  | KeyError string
  | OverflowError
  | InvalidTag

datatype node = File bytes | Dir

datatype event =
    EvExists path
  | EvStat path
  | EvMkdir path
  | EvRead path
  | EvWrite path
  | EvRemove path
  | EvPerfCounter real
  | EvProcessTime real
  | EvTime real
  | EvTokenBytes nat bytes
  | EvAeadNew string bytes
  | EvAeadEncrypt string bytes bytes "bytes option"
  | EvPrint string
  | EvExit int

text \<open>
  The clocks and the random source are oracles: the world holds the readings and the
  bytes still to come, and each call takes the next one. Python's floats are modelled
  as real numbers, so the rounding of binary64 arithmetic is not part of the model.
\<close>

record world =
  fs :: "path \<Rightarrow> node option"
  entropy :: "nat \<Rightarrow> byte"
  perf_clock :: "nat \<Rightarrow> real"
  cpu_clock :: "nat \<Rightarrow> real"
  wall_clock :: "nat \<Rightarrow> real"
  trace :: "event list"

definition log :: "event \<Rightarrow> world \<Rightarrow> world" where
  "log e w = w\<lparr>trace := trace w @ [e]\<rparr>"

subsection \<open>Operating-system calls\<close>

text \<open>\<^verbatim>\<open>secrets.token_bytes(n)\<close>: the next \<open>n\<close> bytes of the random source.\<close>

definition token_bytes :: "nat \<Rightarrow> world \<Rightarrow> bytes \<times> world" where
  "token_bytes n w =
     (let b = map (entropy w) [0..<n]
      in (b, log (EvTokenBytes n b) (w\<lparr>entropy := (\<lambda>i. entropy w (i + n))\<rparr>)))"

definition perf_counter :: "world \<Rightarrow> real \<times> world" where
  "perf_counter w =
     (let t = perf_clock w 0
      in (t, log (EvPerfCounter t) (w\<lparr>perf_clock := (\<lambda>i. perf_clock w (i + 1))\<rparr>)))"

definition process_time :: "world \<Rightarrow> real \<times> world" where
  "process_time w =
     (let t = cpu_clock w 0
      in (t, log (EvProcessTime t) (w\<lparr>cpu_clock := (\<lambda>i. cpu_clock w (i + 1))\<rparr>)))"

definition time_time :: "world \<Rightarrow> real \<times> world" where
  "time_time w =
     (let t = wall_clock w 0
      in (t, log (EvTime t) (w\<lparr>wall_clock := (\<lambda>i. wall_clock w (i + 1))\<rparr>)))"

text \<open>\<^verbatim>\<open>Path.exists()\<close>.\<close>

definition path_exists :: "path \<Rightarrow> world \<Rightarrow> bool \<times> world" where
  "path_exists p w = (fs w p \<noteq> None, log (EvExists p) w)"

text \<open>
  \<^verbatim>\<open>Path.stat().st_size\<close>. A directory has a size too; its value depends on the file
  system and reaches no result of the script, the model takes 4096.
\<close>

definition stat_size :: "path \<Rightarrow> world \<Rightarrow> (error + int) \<times> world" where
  "stat_size p w =
     (case fs w p of
        None \<Rightarrow> (Inl FileNotFoundError, log (EvStat p) w)
      | Some (File b) \<Rightarrow> (Inr (int (length b)), log (EvStat p) w)
      | Some Dir \<Rightarrow> (Inr 4096, log (EvStat p) w))"

text \<open>\<^verbatim>\<open>open(p, "rb")\<close> followed by \<^verbatim>\<open>read()\<close>.\<close>

definition read_file :: "path \<Rightarrow> world \<Rightarrow> (error + bytes) \<times> world" where
  "read_file p w =
     (case fs w p of
        None \<Rightarrow> (Inl FileNotFoundError, log (EvRead p) w)
      | Some Dir \<Rightarrow> (Inl IsADirectoryError, log (EvRead p) w)
      | Some (File b) \<Rightarrow> (Inr b, log (EvRead p) w))"

text \<open>
  The directory a path lies in exists when it is the current directory or the root
  (\<open>butlast p\<close> is empty or an anchor) or a directory of the file system.
\<close>

definition parent_ok :: "path \<Rightarrow> world \<Rightarrow> error option" where
  "parent_ok p w =
     (let d = butlast p
      in if d = [] \<or> (length d = 1 \<and> is_root (hd d)) then None
         else (case fs w d of
                 None \<Rightarrow> Some FileNotFoundError
               | Some (File _) \<Rightarrow> Some NotADirectoryError
               | Some Dir \<Rightarrow> None))"

text \<open>
  Creating or truncating a file and writing all of it (\<^verbatim>\<open>open(p, "wb")\<close> and
  \<^verbatim>\<open>write\<close>, \<^verbatim>\<open>DataFrame.to_csv\<close>, \<^verbatim>\<open>savefig\<close>). The write is atomic in the
  model: it fails and changes nothing, or it leaves the whole content.
\<close>

definition write_file :: "path \<Rightarrow> bytes \<Rightarrow> world \<Rightarrow> (error + unit) \<times> world" where
  "write_file p b w =
     (if p = [] \<or> fs w p = Some Dir then (Inl IsADirectoryError, log (EvWrite p) w)
      else (case parent_ok p w of
              Some e \<Rightarrow> (Inl e, log (EvWrite p) w)
            | None \<Rightarrow> (Inr (), log (EvWrite p) (w\<lparr>fs := (fs w)(p \<mapsto> File b)\<rparr>))))"

text \<open>\<^verbatim>\<open>os.remove(p)\<close>.\<close>

definition remove_file :: "path \<Rightarrow> world \<Rightarrow> (error + unit) \<times> world" where
  "remove_file p w =
     (case fs w p of
        None \<Rightarrow> (Inl FileNotFoundError, log (EvRemove p) w)
      | Some Dir \<Rightarrow> (Inl IsADirectoryError, log (EvRemove p) w)
      | Some (File _) \<Rightarrow> (Inr (), log (EvRemove p) (w\<lparr>fs := (fs w)(p := None)\<rparr>)))"

text \<open>
  \<^verbatim>\<open>Path.mkdir(parents=True, exist_ok=True)\<close>: the path and its missing ancestors
  become directories; when the path or an ancestor is a regular file the call raises
  and creates nothing.
\<close>

definition ancestors :: "path \<Rightarrow> path list" where
  "ancestors p = map (\<lambda>n. take n p) [1..<Suc (length p)]"

fun make_dirs :: "path list \<Rightarrow> (path \<Rightarrow> node option) \<Rightarrow> (path \<Rightarrow> node option)" where
  "make_dirs [] m = m"
| "make_dirs (d # ds) m = make_dirs ds (m(d \<mapsto> Dir))"

definition is_file :: "node option \<Rightarrow> bool" where
  "is_file n = (case n of Some (File _) \<Rightarrow> True | _ \<Rightarrow> False)"

definition mkdir_parents :: "path \<Rightarrow> world \<Rightarrow> (error + unit) \<times> world" where
  "mkdir_parents p w =
     (if p \<noteq> [] \<and> is_file (fs w p) then (Inl FileExistsError, log (EvMkdir p) w)
      else if list_ex (\<lambda>d. is_file (fs w d)) (ancestors p)
      then (Inl NotADirectoryError, log (EvMkdir p) w)
      else (Inr (), log (EvMkdir p) (w\<lparr>fs := make_dirs (ancestors p) (fs w)\<rparr>)))"

text \<open>\<^verbatim>\<open>print\<close> of one line.\<close>

definition print_line :: "string \<Rightarrow> world \<Rightarrow> world" where
  "print_line s w = log (EvPrint s) w"

subsection \<open>The AEAD primitives of the \<^verbatim>\<open>cryptography\<close> package\<close>

text \<open>
  \<^verbatim>\<open>AESGCM\<close> and \<^verbatim>\<open>ChaCha20Poly1305\<close> are classes of a library, not code of the
  script: each is a parameter of the model, a constructor from the key and the two
  methods \<^verbatim>\<open>encrypt(nonce, data, associated_data)\<close> and
  \<^verbatim>\<open>decrypt(nonce, data, associated_data)\<close>, any of which may raise.
\<close>

record 'c aead =
  new :: "bytes \<Rightarrow> error + 'c"
  encrypt :: "'c \<Rightarrow> bytes \<Rightarrow> bytes \<Rightarrow> bytes option \<Rightarrow> error + bytes"
  decrypt :: "'c \<Rightarrow> bytes \<Rightarrow> bytes \<Rightarrow> bytes option \<Rightarrow> error + bytes"

text \<open>
  What the library promises of a primitive: decrypting, under the same key, nonce and
  associated data, what \<^verbatim>\<open>encrypt\<close> returned gives the plaintext back.
\<close>

definition aead_inverts :: "'c aead \<Rightarrow> bool" where
  "aead_inverts A \<longleftrightarrow>
     (\<forall>c n p ad ct. encrypt A c n p ad = Inr ct \<longrightarrow> decrypt A c n ct ad = Inr p)"

subsection \<open>The adapters\<close>

definition encrypt_aes_gcm :: "'c aead \<Rightarrow> bytes \<Rightarrow> bytes \<Rightarrow> world \<Rightarrow> (error + bytes) \<times> world" where
  "encrypt_aes_gcm AESGCM key plaintext w =
     (case new AESGCM key of
        Inl e \<Rightarrow> (Inl e, log (EvAeadNew ''AESGCM'' key) w)
      | Inr aesgcm \<Rightarrow>
          (let (nonce, w1) = token_bytes 12 (log (EvAeadNew ''AESGCM'' key) w);
               w2 = log (EvAeadEncrypt ''AESGCM'' nonce plaintext None) w1
           in case encrypt AESGCM aesgcm nonce plaintext None of
                Inl e \<Rightarrow> (Inl e, w2)
              | Inr ct \<Rightarrow> (Inr (nonce @ ct), w2)))"

definition encrypt_chacha :: "'c aead \<Rightarrow> bytes \<Rightarrow> bytes \<Rightarrow> world \<Rightarrow> (error + bytes) \<times> world" where
  "encrypt_chacha ChaCha20Poly1305 key plaintext w =
     (case new ChaCha20Poly1305 key of
        Inl e \<Rightarrow> (Inl e, log (EvAeadNew ''ChaCha20Poly1305'' key) w)
      | Inr chacha \<Rightarrow>
          (let (nonce, w1) = token_bytes 12 (log (EvAeadNew ''ChaCha20Poly1305'' key) w);
               w2 = log (EvAeadEncrypt ''ChaCha20Poly1305'' nonce plaintext None) w1
           in case encrypt ChaCha20Poly1305 chacha nonce plaintext None of
                Inl e \<Rightarrow> (Inl e, w2)
              | Inr ct \<Rightarrow> (Inr (nonce @ ct), w2)))"

subsection \<open>The libraries, as parameters\<close>

text \<open>
  Besides the two primitives, the script hands its tables to \<^verbatim>\<open>pandas\<close> and
  \<^verbatim>\<open>matplotlib\<close> to be written as CSV and PNG files. What bytes they write is
  theirs to decide: the renderers are parameters too.

  A trial record is the dictionary \<^verbatim>\<open>run_single_encryption\<close> returns; its key
  \<^verbatim>\<open>"file"\<close> is the field \<open>src_file\<close> here (\<open>file\<close> is a keyword of Isabelle).
  The fields \<open>src_file\<close> and \<open>output_file\<close> hold the paths themselves where the
  dictionary holds their \<^verbatim>\<open>str\<close>, from which \<^verbatim>\<open>Path\<close> gives the same path back.
\<close>

record metrics =
  src_file :: path
  filesize_bytes :: int
  cipher :: string
  wall_time_sec :: real
  cpu_time_sec :: real
  output_file :: path
  timestamp :: real
  bytes_processed :: int

record row = metrics +
  iter :: int

record aggregate =
  runs :: nat
  avg_wall_sec :: "real option"
  std_wall_sec :: "real option"
  avg_cpu_sec :: "real option"
  std_cpu_sec :: "real option"
  mean_bytes_processed :: "real option"

record ('a, 'b) libs =
  AESGCM :: "'a aead"
  ChaCha20Poly1305 :: "'b aead"
  raw_to_csv :: "row list \<Rightarrow> bytes"
  summary_to_csv :: "(string \<times> string \<Rightarrow> aggregate option) \<Rightarrow> bytes"
  bar_chart :: "string \<Rightarrow> (string \<times> string \<Rightarrow> real option) \<Rightarrow> bytes"

section \<open>The single-trial runner\<close>

definition run_single_encryption ::
  "('a, 'b) libs \<Rightarrow> path \<Rightarrow> string \<Rightarrow> bytes \<Rightarrow> path \<Rightarrow> world \<Rightarrow> (error + metrics) \<times> world" where
  "run_single_encryption L file_path cipher_name key outdir w =
     (case stat_size file_path w of
        (Inl e, w1) \<Rightarrow> (Inl e, w1)
      | (Inr size_f, w1) \<Rightarrow>
     (let (start_wall_read, w2) = perf_counter w1
      in case read_file file_path w2 of
        (Inl e, w3) \<Rightarrow> (Inl e, w3)
      | (Inr plaintext, w3) \<Rightarrow>
     (let (end_wall_read, w4) = perf_counter w3;
          (start_wall, w5) = perf_counter w4;
          (start_cpu, w6) = process_time w5
      in case (if cipher_name = ''AES-GCM'' then encrypt_aes_gcm (AESGCM L) key plaintext w6
               else if cipher_name = ''ChaCha20-Poly1305''
                    then encrypt_chacha (ChaCha20Poly1305 L) key plaintext w6
               else (Inl (ValueError ''Unsupported cipher''), w6)) of
        (Inl e, w7) \<Rightarrow> (Inl e, w7)
      | (Inr ciphertext, w7) \<Rightarrow>
     (let (end_cpu, w8) = process_time w7;
          (end_wall, w9) = perf_counter w8;
          out_file = outdir @ [path_name file_path @ ''.''
                               @ filter (\<lambda>c. c \<noteq> CHR '' '') cipher_name @ ''.ct'']
      in case write_file out_file ciphertext w9 of
        (Inl e, w10) \<Rightarrow> (Inl e, w10)
      | (Inr u, w10) \<Rightarrow>
     (let (now, w11) = time_time w10
      in (Inr \<lparr>src_file = file_path,
               filesize_bytes = size_f,
               cipher = cipher_name,
               wall_time_sec = end_wall - start_wall + (end_wall_read - start_wall_read),
               cpu_time_sec = end_cpu - start_cpu,
               output_file = out_file,
               timestamp = now,
               bytes_processed = int (length plaintext)\<rparr>, w11))))))"

section \<open>The orchestrator\<close>

definition ciphers :: "string list" where
  "ciphers = [''AES-GCM'', ''ChaCha20-Poly1305'']"

text \<open>\<^verbatim>\<open>metrics["iter"] = i\<close>.\<close>

definition with_iter :: "metrics \<Rightarrow> int \<Rightarrow> row" where
  "with_iter m i =
     \<lparr>src_file = src_file m, filesize_bytes = filesize_bytes m, cipher = cipher m,
      wall_time_sec = wall_time_sec m, cpu_time_sec = cpu_time_sec m,
      output_file = output_file m, timestamp = timestamp m,
      bytes_processed = bytes_processed m, iter = i\<rparr>"

text \<open>
  The body of the innermost loop: the \<^verbatim>\<open>try\<close> block around one trial. An exception
  of the trial is caught, the row is not appended and the loop goes on. The progress
  lines the orchestrator prints only format values already computed; they are left out
  of the model.
\<close>

definition trial ::
  "('a, 'b) libs \<Rightarrow> path \<Rightarrow> string \<Rightarrow> bytes \<Rightarrow> bytes \<Rightarrow> path \<Rightarrow> int
     \<Rightarrow> row list \<times> world \<Rightarrow> row list \<times> world" where
  "trial L file_path ciph key_aes key_cha outdir i s =
     (let key = (if ciph = ''AES-GCM'' then key_aes else key_cha)
      in case run_single_encryption L file_path ciph key outdir (snd s) of
           (Inr m, w') \<Rightarrow> (fst s @ [with_iter m i], w')
         | (Inl e, w') \<Rightarrow> (fst s, w'))"

text \<open>\<^verbatim>\<open>for i in range(1, iters + 1)\<close>, over the list of the indices.\<close>

fun iter_loop ::
  "('a, 'b) libs \<Rightarrow> path \<Rightarrow> string \<Rightarrow> bytes \<Rightarrow> bytes \<Rightarrow> path \<Rightarrow> int list
     \<Rightarrow> row list \<times> world \<Rightarrow> row list \<times> world" where
  "iter_loop L file_path ciph key_aes key_cha outdir [] s = s"
| "iter_loop L file_path ciph key_aes key_cha outdir (i # is) s =
     iter_loop L file_path ciph key_aes key_cha outdir is
       (trial L file_path ciph key_aes key_cha outdir i s)"

text \<open>\<^verbatim>\<open>for cipher in ciphers\<close>.\<close>

fun cipher_loop ::
  "('a, 'b) libs \<Rightarrow> path \<Rightarrow> string list \<Rightarrow> bytes \<Rightarrow> bytes \<Rightarrow> path \<Rightarrow> int
     \<Rightarrow> row list \<times> world \<Rightarrow> row list \<times> world" where
  "cipher_loop L file_path [] key_aes key_cha outdir iters s = s"
| "cipher_loop L file_path (ciph # cs) key_aes key_cha outdir iters s =
     cipher_loop L file_path cs key_aes key_cha outdir iters
       (iter_loop L file_path ciph key_aes key_cha outdir [1..iters] s)"

text \<open>
  \<^verbatim>\<open>for file_path in files\<close>. The \<^verbatim>\<open>stat\<close> of the file stands outside the
  \<^verbatim>\<open>try\<close> block: when it raises, the whole run ends with that exception.
\<close>

fun file_loop ::
  "('a, 'b) libs \<Rightarrow> path list \<Rightarrow> bytes \<Rightarrow> bytes \<Rightarrow> path \<Rightarrow> int
     \<Rightarrow> row list \<times> world \<Rightarrow> (error + row list) \<times> world" where
  "file_loop L [] key_aes key_cha outdir iters s = (Inr (fst s), snd s)"
| "file_loop L (file_path # fps) key_aes key_cha outdir iters s =
     (case stat_size file_path (snd s) of
        (Inl e, w1) \<Rightarrow> (Inl e, w1)
      | (Inr filesize, w1) \<Rightarrow>
          file_loop L fps key_aes key_cha outdir iters
            (cipher_loop L file_path ciphers key_aes key_cha outdir iters (fst s, w1)))"

text \<open>
  The first part of \<^verbatim>\<open>benchmark\<close>, up to the end of the loops: the output directory,
  the two keys, and the matrix of trials between two readings of the clock.
\<close>

definition run_matrix ::
  "('a, 'b) libs \<Rightarrow> path list \<Rightarrow> int \<Rightarrow> path \<Rightarrow> world \<Rightarrow> (error + row list) \<times> world" where
  "run_matrix L files iters outdir w =
     (case mkdir_parents outdir w of
        (Inl e, w1) \<Rightarrow> (Inl e, w1)
      | (Inr u, w1) \<Rightarrow>
     (let (key_aes, w2) = token_bytes 32 w1;
          (key_cha, w3) = token_bytes 32 w2;
          (start_all, w4) = perf_counter w3
      in case file_loop L files key_aes key_cha outdir iters ([], w4) of
        (Inl e, w5) \<Rightarrow> (Inl e, w5)
      | (Inr raw_rows, w5) \<Rightarrow>
     (let (end_all, w6) = perf_counter w5
      in (Inr raw_rows, w6))))"

section \<open>Aggregation and reporting\<close>

text \<open>
  \<^verbatim>\<open>df["filesize_MB"] = df["filesize_bytes"] / (1024*1024)\<close>. The division by a
  power of two and the subtractions of \<open>size_label\<close> are exact in binary64 for every
  size below \<open>2 ^ 53\<close> bytes, and beyond it every comparison of \<open>size_label\<close> is false
  in binary64 as it is here.
\<close>

definition filesize_MB :: "row \<Rightarrow> real" where
  "filesize_MB r = real_of_int (filesize_bytes r) / (1024 * 1024)"

definition size_label :: "row \<Rightarrow> string" where
  "size_label r =
     (let size_mb = filesize_MB r
      in if \<bar>size_mb - 10\<bar> < 1 then ''10MB''
         else if \<bar>size_mb - 100\<bar> < 5 then ''100MB''
         else if \<bar>size_mb - 500\<bar> < 20 then ''500MB''
         else if \<bar>size_mb - 1024\<bar> < 100 then ''1GB''
         else path_name (src_file r))"

text \<open>
  Modelled from the spec: the aggregations \<^verbatim>\<open>"mean"\<close> and \<^verbatim>\<open>"std"\<close> of
  \<^verbatim>\<open>pandas\<close>, which are not code of the script. The spec has the mean as the
  arithmetic mean and the standard deviation as the sample standard deviation, missing
  when the group has fewer than two runs. \<open>None\<close> is the missing value.
\<close>

definition mean_agg :: "real list \<Rightarrow> real option" where
  "mean_agg xs = (if xs = [] then None else Some (sum_list xs / real (length xs)))"

definition std_agg :: "real list \<Rightarrow> real option" where
  "std_agg xs =
     (if length xs < 2 then None
      else (let m = sum_list xs / real (length xs)
            in Some (sqrt (sum_list (map (\<lambda>x. (x - m)\<^sup>2) xs) / real (length xs - 1)))))"

text \<open>
  \<^verbatim>\<open>df.groupby(["size_label", "cipher"]).agg(...)\<close>: the table of the groups, as a
  map from the key of a group to its row. A key has a row when some trial record has it.
\<close>

definition group_rows :: "row list \<Rightarrow> string \<times> string \<Rightarrow> row list" where
  "group_rows rows k = filter (\<lambda>r. (size_label r, cipher r) = k) rows"

definition summary :: "row list \<Rightarrow> string \<times> string \<Rightarrow> aggregate option" where
  "summary rows k =
     (let g = group_rows rows k
      in if g = [] then None
         else Some \<lparr>runs = length g,
                    avg_wall_sec = mean_agg (map wall_time_sec g),
                    std_wall_sec = std_agg (map wall_time_sec g),
                    avg_cpu_sec = mean_agg (map cpu_time_sec g),
                    std_cpu_sec = std_agg (map cpu_time_sec g),
                    mean_bytes_processed = mean_agg (map (\<lambda>r. real_of_int (bytes_processed r)) g)\<rparr>)"

text \<open>\<^verbatim>\<open>summary.pivot(index="size_label", columns="cipher", values=...)\<close>.\<close>

definition pivot :: "(aggregate \<Rightarrow> real option) \<Rightarrow> (string \<times> string \<Rightarrow> aggregate option)
    \<Rightarrow> string \<times> string \<Rightarrow> real option" where
  "pivot v t k = (case t k of None \<Rightarrow> None | Some a \<Rightarrow> v a)"

text \<open>\<^verbatim>\<open>Series.unique()\<close>: the values in the order of their first appearance.\<close>

definition unique :: "'a list \<Rightarrow> 'a list" where
  "unique xs = rev (remdups (rev xs))"

text \<open>The loop of the clean-up: an exception of \<^verbatim>\<open>os.remove\<close> is passed over.\<close>

fun cleanup :: "path list \<Rightarrow> world \<Rightarrow> world" where
  "cleanup [] w = w"
| "cleanup (f # rest) w = cleanup rest (snd (remove_file f w))"

text \<open>
  The second part of \<^verbatim>\<open>benchmark\<close>, after the loops. A table without rows has no
  columns, and \<^verbatim>\<open>df["filesize_bytes"]\<close> raises \<^verbatim>\<open>KeyError\<close> on it.
\<close>

definition report ::
  "('a, 'b) libs \<Rightarrow> row list \<Rightarrow> path \<Rightarrow> bool \<Rightarrow> world \<Rightarrow> (error + unit) \<times> world" where
  "report L raw_rows outdir keep_outputs w =
     (case write_file (outdir @ [''raw_results.csv'']) (raw_to_csv L raw_rows) w of
        (Inl e, w1) \<Rightarrow> (Inl e, w1)
      | (Inr u, w1) \<Rightarrow>
     (if raw_rows = [] then (Inl (KeyError ''filesize_bytes''), w1)
      else case write_file (outdir @ [''summary_avg.csv''])
                  (summary_to_csv L (summary raw_rows)) w1 of
        (Inl e, w2) \<Rightarrow> (Inl e, w2)
      | (Inr u, w2) \<Rightarrow>
     (case write_file (outdir @ [''time_avg.png''])
             (bar_chart L ''Average wall time (s)'' (pivot avg_wall_sec (summary raw_rows))) w2 of
        (Inl e, w3) \<Rightarrow> (Inl e, w3)
      | (Inr u, w3) \<Rightarrow>
     (case write_file (outdir @ [''cpu_avg.png''])
             (bar_chart L ''Average CPU time (s)'' (pivot avg_cpu_sec (summary raw_rows))) w3 of
        (Inl e, w4) \<Rightarrow> (Inl e, w4)
      | (Inr u, w4) \<Rightarrow>
     (if \<not> keep_outputs then (Inr (), cleanup (unique (map output_file raw_rows)) w4)
      else (Inr (), w4))))))"

definition benchmark ::
  "('a, 'b) libs \<Rightarrow> path list \<Rightarrow> int \<Rightarrow> path \<Rightarrow> bool \<Rightarrow> world \<Rightarrow> (error + unit) \<times> world" where
  "benchmark L files iters outdir keep_outputs w =
     (case run_matrix L files iters outdir w of
        (Inl e, w1) \<Rightarrow> (Inl e, w1)
      | (Inr raw_rows, w1) \<Rightarrow> report L raw_rows outdir keep_outputs w1)"

section \<open>The command line\<close>

text \<open>
  The arguments as \<^verbatim>\<open>parse_args\<close> returns them, the file names already turned into
  paths (\<^verbatim>\<open>files = [Path(f) for f in args.files]\<close>).
\<close>

record args =
  arg_files :: "path list"
  arg_iters :: int
  arg_outdir :: path
  arg_keep_outputs :: bool

text \<open>How the process ends: \<^verbatim>\<open>main\<close> returns, an exception escapes, or \<^verbatim>\<open>sys.exit\<close>.\<close>

datatype outcome = Returned | Raised error | Exit int

text \<open>\<^verbatim>\<open>missing = [str(f) for f in files if not f.exists()]\<close>.\<close>

fun find_missing :: "path list \<Rightarrow> world \<Rightarrow> string list \<times> world" where
  "find_missing [] w = ([], w)"
| "find_missing (f # rest) w =
     (let (ex, w1) = path_exists f w;
          (ms, w2) = find_missing rest w1
      in (if \<not> ex then path_str f # ms else ms, w2))"

text \<open>\<^verbatim>\<open>for m in missing: print("  ", m)\<close>; \<^verbatim>\<open>print\<close> puts a space between its arguments.\<close>

fun print_missing :: "string list \<Rightarrow> world \<Rightarrow> world" where
  "print_missing [] w = w"
| "print_missing (m # ms) w = print_missing ms (print_line (''  '' @ '' '' @ m) w)"

definition main :: "('a, 'b) libs \<Rightarrow> args \<Rightarrow> world \<Rightarrow> outcome \<times> world" where
  "main L a w =
     (let files = arg_files a;
          (missing, w1) = find_missing files w
      in if missing \<noteq> [] then
           (let w2 = print_line ''ERROR: these files do not exist:'' w1;
                w3 = print_missing missing w2
            in (Exit 1, log (EvExit 1) w3))
         else (case benchmark L files (arg_iters a) (arg_outdir a) (arg_keep_outputs a) w1 of
                 (Inl e, w2) \<Rightarrow> (Raised e, w2)
               | (Inr u, w2) \<Rightarrow> (Returned, w2)))"

section \<open>A small instance to run the model on\<close>

text \<open>
  A stand-in for a primitive, to evaluate the model at concrete inputs: it accepts
  keys of 32 bytes, refuses data of more than eight bytes as the library refuses data
  beyond its size limit, and appends a fixed tag of four bytes, which \<open>decrypt\<close> checks
  and removes.
\<close>

definition toy_tag :: bytes where
  "toy_tag = [222, 173, 190, 239]"

definition toy_aead :: "bytes aead" where
  "toy_aead =
     \<lparr>new = (\<lambda>key. if length key = 32 then Inr key else Inl (ValueError ''bad key size'')),
      encrypt = (\<lambda>c nonce data ad.
                   if 8 < length data then Inl OverflowError else Inr (data @ toy_tag)),
      decrypt = (\<lambda>c nonce data ad.
                   if 4 \<le> length data \<and> drop (length data - 4) data = toy_tag
                   then Inr (take (length data - 4) data) else Inl InvalidTag)\<rparr>"

definition toy_libs :: "(bytes, bytes) libs" where
  "toy_libs =
     \<lparr>AESGCM = toy_aead, ChaCha20Poly1305 = toy_aead,
      raw_to_csv = (\<lambda>rows. []), summary_to_csv = (\<lambda>t. []), bar_chart = (\<lambda>title t. [])\<rparr>"

text \<open>
  A world with one file of three bytes, one file of nine bytes and a directory; the
  random source counts up from zero and the clocks tick once per reading.
\<close>

definition demo_world :: world where
  "demo_world =
     \<lparr>fs = [[''a.bin''] \<mapsto> File [1, 2, 3],
            [''big.bin''] \<mapsto> File [1, 2, 3, 4, 5, 6, 7, 8, 9],
            [''d''] \<mapsto> Dir],
      entropy = (\<lambda>i. of_nat i),
      perf_clock = (\<lambda>i. real i),
      cpu_clock = (\<lambda>i. real i / 2),
      wall_clock = (\<lambda>i. 1000 + real i),
      trace = []\<rparr>"

definition demo_key :: bytes where
  "demo_key = map of_nat [0..<32]"

definition demo_row :: "int \<Rightarrow> row" where
  "demo_row n =
     \<lparr>src_file = [''data'', ''sample.bin''], filesize_bytes = n, cipher = ''AES-GCM'',
      wall_time_sec = 1, cpu_time_sec = 1, output_file = [''out'', ''sample.bin.AES-GCM.ct''],
      timestamp = 0, bytes_processed = n, iter = 1\<rparr>"

text \<open>
  Six trial records: three runs with AES-GCM and two with ChaCha20-Poly1305 of a file
  of 10 MB, and one run of a file of 100 MB.
\<close>

definition demo_rows :: "row list" where
  "demo_rows =
     [(demo_row 10485760)\<lparr>wall_time_sec := 1, iter := 1\<rparr>,
      (demo_row 10485760)\<lparr>cipher := ''ChaCha20-Poly1305'', wall_time_sec := 4, iter := 1\<rparr>,
      (demo_row 10485760)\<lparr>wall_time_sec := 2, iter := 2\<rparr>,
      (demo_row 10485760)\<lparr>cipher := ''ChaCha20-Poly1305'', wall_time_sec := 6, iter := 2\<rparr>,
      (demo_row 10485760)\<lparr>wall_time_sec := 3, cpu_time_sec := 5, iter := 3\<rparr>,
      (demo_row 104857600)\<lparr>wall_time_sec := 7\<rparr>]"

text \<open>
  The calls one trial of file \<open>f\<close> with cipher \<open>c\<close> and key \<open>key\<close> can make: the
  events \<open>run_single_encryption\<close> may append to the trace.
\<close>

fun trial_event :: "path \<Rightarrow> string \<Rightarrow> bytes \<Rightarrow> path \<Rightarrow> event \<Rightarrow> bool" where
  "trial_event f c key outdir (EvStat p) = (p = f)"
| "trial_event f c key outdir (EvRead p) = (p = f)"
| "trial_event f c key outdir (EvPerfCounter t) = True"
| "trial_event f c key outdir (EvProcessTime t) = True"
| "trial_event f c key outdir (EvTime t) = True"
| "trial_event f c key outdir (EvTokenBytes n b) = (n = 12)"
| "trial_event f c key outdir (EvAeadNew name k) =
     (k = key \<and> (c = ''AES-GCM'' \<and> name = ''AESGCM''
                 \<or> c = ''ChaCha20-Poly1305'' \<and> name = ''ChaCha20Poly1305''))"
| "trial_event f c key outdir (EvAeadEncrypt name n p ad) = (ad = None)"
| "trial_event f c key outdir (EvWrite p) = (p = outdir @ [path_name f @ ''.'' @ c @ ''.ct''])"
| "trial_event f c key outdir _ = False"

text \<open>A command line naming one file that exists and two that do not.\<close>

definition demo_args :: args where
  "demo_args =
     \<lparr>arg_files = [[''a.bin''], [''nope.bin''], [''d'', ''gone.bin'']], arg_iters = 10,
      arg_outdir = [''benchmark_results''], arg_keep_outputs = False\<rparr>"

text \<open>
  The rows of the raw table for one file and one cipher, and the indices at which a run
  of the innermost loop gets a record: the trials of the loop are replayed from the
  world the loop starts in, each one in the world its predecessor left.
\<close>

definition pair_rows :: "path \<Rightarrow> string \<Rightarrow> row list \<Rightarrow> row list" where
  "pair_rows f c rows = filter (\<lambda>r. src_file r = f \<and> cipher r = c) rows"

fun successes ::
  "('a, 'b) libs \<Rightarrow> path \<Rightarrow> string \<Rightarrow> bytes \<Rightarrow> bytes \<Rightarrow> path \<Rightarrow> int list \<Rightarrow> world \<Rightarrow> int list" where
  "successes L f c key_aes key_cha outdir [] w = []"
| "successes L f c key_aes key_cha outdir (i # is) w =
     (case run_single_encryption L f c (if c = ''AES-GCM'' then key_aes else key_cha) outdir w of
        (Inr m, w') \<Rightarrow> i # successes L f c key_aes key_cha outdir is w'
      | (Inl e, w') \<Rightarrow> successes L f c key_aes key_cha outdir is w')"



text \<open>
  The rows a run returned (none when it raised), and the record the stand-in
  primitives give for the file \<open>a.bin\<close> of the small world.
\<close>

definition raw_rows_of :: "(error + row list) \<times> world \<Rightarrow> row list" where
  "raw_rows_of r = (case fst r of Inr rows \<Rightarrow> rows | Inl e \<Rightarrow> [])"

definition demo_trial_row :: "path \<Rightarrow> string \<Rightarrow> real \<Rightarrow> int \<Rightarrow> row" where
  "demo_trial_row od c t i =
     \<lparr>src_file = [''a.bin''], filesize_bytes = 3, cipher = c,
      wall_time_sec = 2, cpu_time_sec = 1 / 2,
      output_file = od @ [''a.bin.'' @ c @ ''.ct''],
      timestamp = t, bytes_processed = 3, iter = i\<rparr>"

section \<open>The adapters: properties\<close>

lemma toy_aead_inverts: "aead_inverts toy_aead"
  by (auto simp: aead_inverts_def toy_aead_def toy_tag_def split: if_splits)

lemma toy_new: "new toy_aead demo_key = Inr demo_key"
  by (simp add: toy_aead_def demo_key_def)

lemma toy_encrypt: "encrypt toy_aead c n [1, 2, 3] None = Inr ([1, 2, 3] @ toy_tag)"
  by (simp add: toy_aead_def)

lemma toy_aes_demo:
  "fst (encrypt_aes_gcm toy_aead demo_key [1, 2, 3] demo_world)
     = Inr (map of_nat [0..<12] @ [1, 2, 3] @ toy_tag)"
  by (simp add: encrypt_aes_gcm_def toy_aead_def demo_key_def demo_world_def token_bytes_def
      log_def Let_def)

lemma toy_chacha_demo:
  "fst (encrypt_chacha toy_aead demo_key [1, 2, 3] demo_world)
     = Inr (map of_nat [0..<12] @ [1, 2, 3] @ toy_tag)"
  by (simp add: encrypt_chacha_def toy_aead_def demo_key_def demo_world_def token_bytes_def
      log_def Let_def)

text \<open>
  C1. Round trip. Let the primitives be such that \<open>decrypt\<close> inverts \<open>encrypt\<close>. Whatever
  the key, the plaintext \<open>P\<close> and the state of the random source, when an adapter returns
  an output, the primitive accepts the key and decrypts the output, split into its
  first 12 bytes as the nonce and the rest as the ciphertext, with no associated data,
  to \<open>P\<close>. An adapter fails only with the exception of the primitive itself: of its
  constructor on the key (the primitives want 32 bytes) or of its \<open>encrypt\<close>.
\<close>

theorem adapter_roundtrip:
  assumes "aead_inverts A" and "aead_inverts B"
  shows "(case fst (encrypt_aes_gcm A key P w) of
            Inr out \<Rightarrow>
              (\<exists>c. new A key = Inr c \<and> decrypt A c (take 12 out) (drop 12 out) None = Inr P)
          | Inl e \<Rightarrow>
              new A key = Inl e
              \<or> (\<exists>c. new A key = Inr c \<and> encrypt A c (map (entropy w) [0..<12]) P None = Inl e))
       \<and> (case fst (encrypt_chacha B key P w) of
            Inr out \<Rightarrow>
              (\<exists>c. new B key = Inr c \<and> decrypt B c (take 12 out) (drop 12 out) None = Inr P)
          | Inl e \<Rightarrow>
              new B key = Inl e
              \<or> (\<exists>c. new B key = Inr c \<and> encrypt B c (map (entropy w) [0..<12]) P None = Inl e))"
  using assms
  by (auto simp: encrypt_aes_gcm_def encrypt_chacha_def token_bytes_def log_def Let_def
      aead_inverts_def split: sum.splits)

theorem adapter_roundtrip_witness:
  "aead_inverts toy_aead
   \<and> fst (encrypt_aes_gcm toy_aead demo_key [1, 2, 3] demo_world)
       = Inr (map of_nat [0..<12] @ [1, 2, 3] @ toy_tag)
   \<and> fst (encrypt_chacha toy_aead demo_key [1, 2, 3] demo_world)
       = Inr (map of_nat [0..<12] @ [1, 2, 3] @ toy_tag)
   \<and> new toy_aead demo_key = Inr demo_key
   \<and> decrypt toy_aead demo_key (take 12 (map of_nat [0..<12] @ [1, 2, 3] @ toy_tag))
        (drop 12 (map of_nat [0..<12] @ [1, 2, 3] @ toy_tag)) None = Inr [1, 2, 3]"
  using adapter_roundtrip [OF toy_aead_inverts toy_aead_inverts,
      where key = demo_key and P = "[1, 2, 3]" and w = demo_world]
    toy_aead_inverts
  by (simp add: toy_aes_demo toy_chacha_demo) (simp add: toy_aead_def demo_key_def)

text \<open>
  C2. What an adapter returns. When the primitive accepts the key and encrypts the
  plaintext, the adapter returns the nonce followed by what \<open>encrypt\<close> of the primitive
  returned (ciphertext and tag, as the primitive lays them out). The nonce has 12 bytes
  and is fresh: it is drawn from the random source by a call of \<open>token_bytes 12\<close> made
  inside the adapter, after the constructor, and the source is left 12 bytes further.
  The one call of \<open>encrypt\<close> has that nonce, the plaintext and no associated data.
\<close>

theorem adapter_output:
  assumes "new A key = Inr a" and "encrypt A a (map (entropy w) [0..<12]) P None = Inr ct"
    and "new B key = Inr b" and "encrypt B b (map (entropy w) [0..<12]) P None = Inr ct'"
  shows "encrypt_aes_gcm A key P w =
           (Inr (map (entropy w) [0..<12] @ ct),
            w\<lparr>entropy := (\<lambda>i. entropy w (i + 12)),
              trace := trace w @ [EvAeadNew ''AESGCM'' key,
                                  EvTokenBytes 12 (map (entropy w) [0..<12]),
                                  EvAeadEncrypt ''AESGCM'' (map (entropy w) [0..<12]) P None]\<rparr>)
       \<and> encrypt_chacha B key P w =
           (Inr (map (entropy w) [0..<12] @ ct'),
            w\<lparr>entropy := (\<lambda>i. entropy w (i + 12)),
              trace := trace w @ [EvAeadNew ''ChaCha20Poly1305'' key,
                                  EvTokenBytes 12 (map (entropy w) [0..<12]),
                                  EvAeadEncrypt ''ChaCha20Poly1305''
                                    (map (entropy w) [0..<12]) P None]\<rparr>)
       \<and> length (map (entropy w) [0..<12]) = 12"
  using assms
  by (simp add: encrypt_aes_gcm_def encrypt_chacha_def token_bytes_def log_def Let_def)

theorem adapter_output_witness:
  "new toy_aead demo_key = Inr demo_key
   \<and> encrypt toy_aead demo_key (map (entropy demo_world) [0..<12]) [1, 2, 3] None
       = Inr ([1, 2, 3] @ toy_tag)
   \<and> fst (encrypt_aes_gcm toy_aead demo_key [1, 2, 3] demo_world)
       = Inr (map (entropy demo_world) [0..<12] @ [1, 2, 3] @ toy_tag)
   \<and> fst (encrypt_chacha toy_aead demo_key [1, 2, 3] demo_world)
       = Inr (map (entropy demo_world) [0..<12] @ [1, 2, 3] @ toy_tag)"
  using adapter_output [OF toy_new toy_encrypt toy_new toy_encrypt, where w = demo_world]
  by (simp add: toy_new toy_encrypt)

section \<open>The size label: properties\<close>

text \<open>
  C3. The label of a trial record is \<open>10MB\<close> when its size in MB differs from 10 by
  less than 1, \<open>100MB\<close> when from 100 by less than 5, \<open>500MB\<close> when from 500 by less
  than 20, \<open>1GB\<close> when from 1024 by less than 100, and the base name of the file when
  none of the four holds. The windows do not meet, so each rule holds on its own. A
  file of 10485760 bytes is labelled \<open>10MB\<close>, one of 104857600 bytes \<open>100MB\<close>, one of
  1073741824 bytes \<open>1GB\<close>, and one of 7000000 bytes has its own name.
\<close>

theorem size_label_buckets:
  "(\<bar>filesize_MB r - 10\<bar> < 1 \<longrightarrow> size_label r = ''10MB'')
   \<and> (\<bar>filesize_MB r - 100\<bar> < 5 \<longrightarrow> size_label r = ''100MB'')
   \<and> (\<bar>filesize_MB r - 500\<bar> < 20 \<longrightarrow> size_label r = ''500MB'')
   \<and> (\<bar>filesize_MB r - 1024\<bar> < 100 \<longrightarrow> size_label r = ''1GB'')
   \<and> (\<not> \<bar>filesize_MB r - 10\<bar> < 1 \<and> \<not> \<bar>filesize_MB r - 100\<bar> < 5
        \<and> \<not> \<bar>filesize_MB r - 500\<bar> < 20 \<and> \<not> \<bar>filesize_MB r - 1024\<bar> < 100
        \<longrightarrow> size_label r = path_name (src_file r))
   \<and> (filesize_bytes r = 10485760 \<longrightarrow> size_label r = ''10MB'')
   \<and> (filesize_bytes r = 104857600 \<longrightarrow> size_label r = ''100MB'')
   \<and> (filesize_bytes r = 1073741824 \<longrightarrow> size_label r = ''1GB'')
   \<and> (filesize_bytes r = 7000000 \<longrightarrow> size_label r = path_name (src_file r))"
  by (auto simp: size_label_def Let_def filesize_MB_def)

theorem size_label_buckets_witness:
  "size_label (demo_row 10485760) = ''10MB''
   \<and> size_label (demo_row 104857600) = ''100MB''
   \<and> size_label (demo_row 524288000) = ''500MB''
   \<and> size_label (demo_row 1073741824) = ''1GB''
   \<and> size_label (demo_row 7000000) = ''sample.bin''
   \<and> \<bar>filesize_MB (demo_row 11000000) - 10\<bar> < 1 \<and> size_label (demo_row 11000000) = ''10MB''"
  using size_label_buckets [of "demo_row 10485760"] size_label_buckets [of "demo_row 104857600"]
    size_label_buckets [of "demo_row 1073741824"] size_label_buckets [of "demo_row 7000000"]
    size_label_buckets [of "demo_row 524288000"] size_label_buckets [of "demo_row 11000000"]
  by (simp add: demo_row_def filesize_MB_def path_name_def)

section \<open>The aggregate table: properties\<close>

lemma agg_example: "mean_agg [1, 2, 3] = Some 2" "std_agg [1, 2, 3] = Some 1"
  by (simp_all add: mean_agg_def std_agg_def Let_def power2_eq_square)

lemma agg_single:
  "length g = 1 \<Longrightarrow> std_agg (map f g) = None \<and> mean_agg (map f g) = Some (f (hd g))"
  by (cases g) (simp_all add: std_agg_def mean_agg_def)

lemma summary_Some:
  "group_rows rows k \<noteq> [] \<Longrightarrow>
     summary rows k =
       Some \<lparr>runs = length (group_rows rows k),
             avg_wall_sec = mean_agg (map wall_time_sec (group_rows rows k)),
             std_wall_sec = std_agg (map wall_time_sec (group_rows rows k)),
             avg_cpu_sec = mean_agg (map cpu_time_sec (group_rows rows k)),
             std_cpu_sec = std_agg (map cpu_time_sec (group_rows rows k)),
             mean_bytes_processed =
               mean_agg (map (\<lambda>r. real_of_int (bytes_processed r)) (group_rows rows k))\<rparr>"
  by (simp add: summary_def Let_def)


text \<open>
  C6. The row of a group in the aggregate table, a group being the trial records of
  one size label and one cipher. Its run count is the number of records of the group;
  its mean wall time, mean CPU time and mean bytes processed are the arithmetic means
  of the values of the group, its two standard deviations their sample standard
  deviations: wall times 1, 2, 3 give mean 2 and standard deviation 1. For a group of
  one run both standard deviations are missing, not zero.
\<close>

theorem summary_statistics:
  assumes "group_rows rows k \<noteq> []"
  shows "\<exists>a. summary rows k = Some a
           \<and> runs a = length (group_rows rows k)
           \<and> avg_wall_sec a = mean_agg (map wall_time_sec (group_rows rows k))
           \<and> std_wall_sec a = std_agg (map wall_time_sec (group_rows rows k))
           \<and> avg_cpu_sec a = mean_agg (map cpu_time_sec (group_rows rows k))
           \<and> std_cpu_sec a = std_agg (map cpu_time_sec (group_rows rows k))
           \<and> mean_bytes_processed a
               = mean_agg (map (\<lambda>r. real_of_int (bytes_processed r)) (group_rows rows k))
           \<and> group_rows rows k = filter (\<lambda>r. size_label r = fst k \<and> cipher r = snd k) rows
           \<and> (map wall_time_sec (group_rows rows k) = [1, 2, 3]
                \<longrightarrow> avg_wall_sec a = Some 2 \<and> std_wall_sec a = Some 1)
           \<and> (map cpu_time_sec (group_rows rows k) = [1, 2, 3]
                \<longrightarrow> avg_cpu_sec a = Some 2 \<and> std_cpu_sec a = Some 1)
           \<and> (length (group_rows rows k) = 1
                \<longrightarrow> std_wall_sec a = None \<and> std_cpu_sec a = None)"
proof -
  let ?g = "group_rows rows k"
  let ?a = "\<lparr>runs = length ?g,
             avg_wall_sec = mean_agg (map wall_time_sec ?g),
             std_wall_sec = std_agg (map wall_time_sec ?g),
             avg_cpu_sec = mean_agg (map cpu_time_sec ?g),
             std_cpu_sec = std_agg (map cpu_time_sec ?g),
             mean_bytes_processed = mean_agg (map (\<lambda>r. real_of_int (bytes_processed r)) ?g)\<rparr>"
  have single: "length ?g = 1 \<Longrightarrow> std_agg (map f ?g) = None" for f :: "row \<Rightarrow> real"
    using agg_single [of ?g f] by simp
  have "summary rows k = Some ?a"
    by (rule summary_Some [OF assms])
  moreover have "runs ?a = length ?g" by simp
  moreover have "avg_wall_sec ?a = mean_agg (map wall_time_sec ?g)" by simp
  moreover have "std_wall_sec ?a = std_agg (map wall_time_sec ?g)" by simp
  moreover have "avg_cpu_sec ?a = mean_agg (map cpu_time_sec ?g)" by simp
  moreover have "std_cpu_sec ?a = std_agg (map cpu_time_sec ?g)" by simp
  moreover have "mean_bytes_processed ?a
      = mean_agg (map (\<lambda>r. real_of_int (bytes_processed r)) ?g)" by simp
  moreover have "?g = filter (\<lambda>r. size_label r = fst k \<and> cipher r = snd k) rows"
    by (simp add: group_rows_def prod_eq_iff)
  moreover have "map wall_time_sec ?g = [1, 2, 3]
      \<longrightarrow> avg_wall_sec ?a = Some 2 \<and> std_wall_sec ?a = Some 1"
    by (simp add: agg_example)
  moreover have "map cpu_time_sec ?g = [1, 2, 3]
      \<longrightarrow> avg_cpu_sec ?a = Some 2 \<and> std_cpu_sec ?a = Some 1"
    by (simp add: agg_example)
  moreover have "length ?g = 1 \<longrightarrow> std_wall_sec ?a = None \<and> std_cpu_sec ?a = None"
    using single by simp
  ultimately show ?thesis by blast
qed

lemma aggregations:
  "(xs \<noteq> [] \<longrightarrow> mean_agg xs = Some (sum_list xs / real (length xs)))
   \<and> (2 \<le> length xs \<longrightarrow>
         std_agg xs = Some (sqrt ((\<Sum>x\<leftarrow>xs. (x - sum_list xs / real (length xs))\<^sup>2)
                                  / real (length xs - 1))))
   \<and> std_agg [x] = None"
  by (simp add: mean_agg_def std_agg_def Let_def)

lemma demo_groups:
  "group_rows demo_rows (''10MB'', ''AES-GCM'') =
     [(demo_row 10485760)\<lparr>wall_time_sec := 1, iter := 1\<rparr>,
      (demo_row 10485760)\<lparr>wall_time_sec := 2, iter := 2\<rparr>,
      (demo_row 10485760)\<lparr>wall_time_sec := 3, cpu_time_sec := 5, iter := 3\<rparr>]"
  "group_rows demo_rows (''10MB'', ''ChaCha20-Poly1305'') =
     [(demo_row 10485760)\<lparr>cipher := ''ChaCha20-Poly1305'', wall_time_sec := 4, iter := 1\<rparr>,
      (demo_row 10485760)\<lparr>cipher := ''ChaCha20-Poly1305'', wall_time_sec := 6, iter := 2\<rparr>]"
  "group_rows demo_rows (''100MB'', ''AES-GCM'') = [(demo_row 104857600)\<lparr>wall_time_sec := 7\<rparr>]"
  by (simp_all add: group_rows_def demo_rows_def size_label_def filesize_MB_def demo_row_def Let_def)

lemma agg_pair: "mean_agg [4, 6] = Some 5" "std_agg [4, 6] = Some (sqrt 2)"
  by (simp_all add: mean_agg_def std_agg_def Let_def power2_eq_square)

theorem summary_statistics_witness:
  "group_rows demo_rows (''10MB'', ''AES-GCM'') \<noteq> []
   \<and> map wall_time_sec (group_rows demo_rows (''10MB'', ''AES-GCM'')) = [1, 2, 3]
   \<and> (\<exists>a. summary demo_rows (''10MB'', ''AES-GCM'') = Some a
          \<and> runs a = 3 \<and> avg_wall_sec a = Some 2 \<and> std_wall_sec a = Some 1
          \<and> mean_bytes_processed a = Some 10485760)
   \<and> group_rows demo_rows (''10MB'', ''ChaCha20-Poly1305'') \<noteq> []
   \<and> (\<exists>a. summary demo_rows (''10MB'', ''ChaCha20-Poly1305'') = Some a
          \<and> runs a = 2 \<and> avg_wall_sec a = Some 5 \<and> std_wall_sec a = Some (sqrt 2)
          \<and> mean_bytes_processed a = Some 10485760)
   \<and> length (group_rows demo_rows (''100MB'', ''AES-GCM'')) = 1
   \<and> (\<exists>a. summary demo_rows (''100MB'', ''AES-GCM'') = Some a
          \<and> runs a = 1 \<and> std_wall_sec a = None \<and> std_cpu_sec a = None
          \<and> mean_bytes_processed a = Some 104857600)"
proof -
  have g1: "group_rows demo_rows (''10MB'', ''AES-GCM'') \<noteq> []"
    and w1: "map wall_time_sec (group_rows demo_rows (''10MB'', ''AES-GCM'')) = [1, 2, 3]"
    and b1: "map (\<lambda>r. real_of_int (bytes_processed r))
               (group_rows demo_rows (''10MB'', ''AES-GCM'')) = [10485760, 10485760, 10485760]"
    and l1: "length (group_rows demo_rows (''10MB'', ''AES-GCM'')) = 3"
    by (simp_all add: demo_groups) (simp_all add: demo_row_def)
  have g2: "group_rows demo_rows (''100MB'', ''AES-GCM'') \<noteq> []"
    and b2: "map (\<lambda>r. real_of_int (bytes_processed r))
               (group_rows demo_rows (''100MB'', ''AES-GCM'')) = [104857600]"
    and l2: "length (group_rows demo_rows (''100MB'', ''AES-GCM'')) = 1"
    by (simp_all add: demo_groups) (simp_all add: demo_row_def)
  have g3: "group_rows demo_rows (''10MB'', ''ChaCha20-Poly1305'') \<noteq> []"
    and w3: "map wall_time_sec (group_rows demo_rows (''10MB'', ''ChaCha20-Poly1305'')) = [4, 6]"
    and b3: "map (\<lambda>r. real_of_int (bytes_processed r))
               (group_rows demo_rows (''10MB'', ''ChaCha20-Poly1305'')) = [10485760, 10485760]"
    and l3: "length (group_rows demo_rows (''10MB'', ''ChaCha20-Poly1305'')) = 2"
    by (simp_all add: demo_groups) (simp_all add: demo_row_def)
  have m3: "mean_agg [10485760, 10485760, 10485760] = Some 10485760"
    "mean_agg [10485760, 10485760] = Some 10485760" "mean_agg [104857600] = Some 104857600"
    by (simp_all add: mean_agg_def)
  from summary_statistics [OF g1]
  have "\<exists>a. summary demo_rows (''10MB'', ''AES-GCM'') = Some a
          \<and> runs a = 3 \<and> avg_wall_sec a = Some 2 \<and> std_wall_sec a = Some 1
          \<and> mean_bytes_processed a = Some 10485760"
    unfolding w1 l1 b1 m3 by auto
  moreover from summary_statistics [OF g3]
  have "\<exists>a. summary demo_rows (''10MB'', ''ChaCha20-Poly1305'') = Some a
          \<and> runs a = 2 \<and> avg_wall_sec a = Some 5 \<and> std_wall_sec a = Some (sqrt 2)
          \<and> mean_bytes_processed a = Some 10485760"
    unfolding w3 l3 b3 m3 agg_pair by auto
  moreover from summary_statistics [OF g2]
  have "\<exists>a. summary demo_rows (''100MB'', ''AES-GCM'') = Some a
          \<and> runs a = 1 \<and> std_wall_sec a = None \<and> std_cpu_sec a = None
          \<and> mean_bytes_processed a = Some 104857600"
    unfolding l2 b2 m3 by auto
  ultimately show ?thesis using g1 w1 g3 l2 by blast
qed

section \<open>The single-trial runner: properties\<close>

lemma stat_size_cases:
  "stat_size p w = (r, w') \<Longrightarrow> w' = log (EvStat p) w"
  by (auto simp: stat_size_def split: option.splits node.splits)

lemma read_file_cases:
  "read_file p w = (r, w') \<Longrightarrow>
     w' = log (EvRead p) w \<and> (\<forall>b. r = Inr b \<longrightarrow> fs w p = Some (File b))"
  by (auto simp: read_file_def split: option.splits node.splits)

lemma write_file_cases:
  "write_file p b w = (r, w') \<Longrightarrow>
     (\<exists>e. r = Inl e \<and> w' = log (EvWrite p) w)
     \<or> (r = Inr () \<and> w' = log (EvWrite p) (w\<lparr>fs := (fs w)(p \<mapsto> File b)\<rparr>))"
  by (auto simp: write_file_def split: option.splits if_splits)

lemma rse_failure:
  assumes "run_single_encryption L f c key outdir w = (Inl e, w')"
  shows "fs w' = fs w \<and> (\<exists>evs. trace w' = trace w @ evs \<and> list_all (trial_event f c key outdir) evs)"
  using assms
  unfolding run_single_encryption_def
  apply (simp split: prod.splits sum.splits if_splits add: Let_def)
  apply (auto dest!: stat_size_cases read_file_cases write_file_cases
      simp: perf_counter_def process_time_def time_time_def log_def Let_def
        encrypt_aes_gcm_def encrypt_chacha_def token_bytes_def 
        split: sum.splits)
  done


lemma rse_file:
  assumes r: "run_single_encryption L f c key outdir w = (Inr m, w')"
  shows "\<exists>pt. fs w f = Some (File pt)"
proof (cases "fs w f")
  case None
  with r show ?thesis
    by (simp add: run_single_encryption_def stat_size_def)
next
  case (Some n)
  show ?thesis
  proof (cases n)
    case Dir
    with Some r show ?thesis
      by (simp add: run_single_encryption_def stat_size_def perf_counter_def read_file_def
          log_def Let_def)
  next
    case (File b)
    with Some show ?thesis by simp
  qed
qed

lemma rse_cipher:
  assumes r: "run_single_encryption L f c key outdir w = (Inr m, w')"
  shows "c = ''AES-GCM'' \<or> c = ''ChaCha20-Poly1305''"
proof (rule ccontr)
  assume n: "\<not> ?thesis"
  from rse_file [OF r] obtain pt where pt: "fs w f = Some (File pt)" ..
  from r n pt show False
    by (simp add: run_single_encryption_def stat_size_def perf_counter_def read_file_def
        process_time_def log_def Let_def)
qed


lemma rse_success:
  assumes r: "run_single_encryption L f c key outdir w = (Inr m, w')"
  shows "\<exists>pt ct name.
      fs w f = Some (File pt)
    \<and> (c = ''AES-GCM'' \<and> name = ''AESGCM''
        \<or> c = ''ChaCha20-Poly1305'' \<and> name = ''ChaCha20Poly1305'')
    \<and> m = \<lparr>src_file = f, filesize_bytes = int (length pt), cipher = c,
            wall_time_sec = perf_clock w 3 - perf_clock w 2 + (perf_clock w 1 - perf_clock w 0),
            cpu_time_sec = cpu_clock w 1 - cpu_clock w 0,
            output_file = outdir @ [path_name f @ ''.'' @ c @ ''.ct''],
            timestamp = wall_clock w 0, bytes_processed = int (length pt)\<rparr>
    \<and> w' = w\<lparr>fs := (fs w)(outdir @ [path_name f @ ''.'' @ c @ ''.ct'']
                         \<mapsto> File (map (entropy w) [0..<12] @ ct)),
              entropy := (\<lambda>i. entropy w (i + 12)),
              perf_clock := (\<lambda>i. perf_clock w (i + 4)),
              cpu_clock := (\<lambda>i. cpu_clock w (i + 2)),
              wall_clock := (\<lambda>i. wall_clock w (i + 1)),
              trace := trace w @
                [EvStat f, EvPerfCounter (perf_clock w 0), EvRead f,
                 EvPerfCounter (perf_clock w 1), EvPerfCounter (perf_clock w 2),
                 EvProcessTime (cpu_clock w 0),
                 EvAeadNew name key, EvTokenBytes 12 (map (entropy w) [0..<12]),
                 EvAeadEncrypt name (map (entropy w) [0..<12]) pt None,
                 EvProcessTime (cpu_clock w 1), EvPerfCounter (perf_clock w 3),
                 EvWrite (outdir @ [path_name f @ ''.'' @ c @ ''.ct'']),
                 EvTime (wall_clock w 0)]\<rparr>"
proof -
  from rse_file [OF r] obtain pt where pt: "fs w f = Some (File pt)" ..
  have num: "\<And>i::nat. i + 4 = Suc (Suc (Suc (Suc i)))"
    by simp
  from rse_cipher [OF r] show ?thesis
  proof
    assume c: "c = ''AES-GCM''"
    show ?thesis
    proof (cases "new (AESGCM L) key")
      case (Inl e)
      with r c pt show ?thesis
        by (simp add: run_single_encryption_def stat_size_def perf_counter_def read_file_def
            process_time_def log_def Let_def encrypt_aes_gcm_def)
    next
      case a: (Inr a)
      show ?thesis
      proof (cases "encrypt (AESGCM L) a (map (entropy w) [0..<12]) pt None")
        case (Inl e)
        with r c pt a show ?thesis
          by (simp add: run_single_encryption_def stat_size_def perf_counter_def read_file_def
              process_time_def log_def Let_def encrypt_aes_gcm_def token_bytes_def)
      next
        case ct: (Inr ct)
        show ?thesis
          apply (rule exI [of _ pt], rule exI [of _ ct], rule exI [of _ "''AESGCM''"])
          using r c pt a ct
          apply (simp add: run_single_encryption_def stat_size_def perf_counter_def read_file_def
              process_time_def log_def Let_def encrypt_aes_gcm_def token_bytes_def
              write_file_def time_time_def
              split: if_splits option.splits)
          apply (auto simp add: numeral_2_eq_2 numeral_3_eq_3 num)
          done
      qed
    qed
  next
    assume c: "c = ''ChaCha20-Poly1305''"
    show ?thesis
    proof (cases "new (ChaCha20Poly1305 L) key")
      case (Inl e)
      with r c pt show ?thesis
        by (simp add: run_single_encryption_def stat_size_def perf_counter_def read_file_def
            process_time_def log_def Let_def encrypt_chacha_def)
    next
      case a: (Inr a)
      show ?thesis
      proof (cases "encrypt (ChaCha20Poly1305 L) a (map (entropy w) [0..<12]) pt None")
        case (Inl e)
        with r c pt a show ?thesis
          by (simp add: run_single_encryption_def stat_size_def perf_counter_def read_file_def
              process_time_def log_def Let_def encrypt_chacha_def token_bytes_def)
      next
        case ct: (Inr ct)
        show ?thesis
          apply (rule exI [of _ pt], rule exI [of _ ct], rule exI [of _ "''ChaCha20Poly1305''"])
          using r c pt a ct
          apply (simp add: run_single_encryption_def stat_size_def perf_counter_def read_file_def
              process_time_def log_def Let_def encrypt_chacha_def token_bytes_def
              write_file_def time_time_def
              split: if_splits option.splits)
          apply (auto simp add: numeral_2_eq_2 numeral_3_eq_3 num)
          done
      qed
    qed
  qed
qed

lemma rse_eval_aes:
  assumes "fs w f = Some (File pt)"
    and "new (AESGCM L) key = Inr a"
    and "encrypt (AESGCM L) a (map (entropy w) [0..<12]) pt None = Inr ct"
    and "fs w outdir = Some Dir"
    and "fs w (outdir @ [path_name f @ ''.AES-GCM.ct'']) \<noteq> Some Dir"
  shows "run_single_encryption L f ''AES-GCM'' key outdir w =
    (Inr \<lparr>src_file = f, filesize_bytes = int (length pt), cipher = ''AES-GCM'',
          wall_time_sec = perf_clock w 3 - perf_clock w 2 + (perf_clock w 1 - perf_clock w 0),
          cpu_time_sec = cpu_clock w 1 - cpu_clock w 0,
          output_file = outdir @ [path_name f @ ''.AES-GCM.ct''],
          timestamp = wall_clock w 0, bytes_processed = int (length pt)\<rparr>,
     w\<lparr>fs := (fs w)(outdir @ [path_name f @ ''.AES-GCM.ct'']
                  \<mapsto> File (map (entropy w) [0..<12] @ ct)),
       entropy := (\<lambda>i. entropy w (i + 12)),
       perf_clock := (\<lambda>i. perf_clock w (i + 4)),
       cpu_clock := (\<lambda>i. cpu_clock w (i + 2)),
       wall_clock := (\<lambda>i. wall_clock w (i + 1)),
       trace := trace w @
         [EvStat f, EvPerfCounter (perf_clock w 0), EvRead f,
          EvPerfCounter (perf_clock w 1), EvPerfCounter (perf_clock w 2),
          EvProcessTime (cpu_clock w 0),
          EvAeadNew ''AESGCM'' key, EvTokenBytes 12 (map (entropy w) [0..<12]),
          EvAeadEncrypt ''AESGCM'' (map (entropy w) [0..<12]) pt None,
          EvProcessTime (cpu_clock w 1), EvPerfCounter (perf_clock w 3),
          EvWrite (outdir @ [path_name f @ ''.AES-GCM.ct'']),
          EvTime (wall_clock w 0)]\<rparr>)"
proof -
  have num: "\<And>i::nat. i + 4 = Suc (Suc (Suc (Suc i)))"
    by simp
  from assms show ?thesis
    by (simp add: run_single_encryption_def stat_size_def perf_counter_def read_file_def
        process_time_def log_def Let_def encrypt_aes_gcm_def token_bytes_def
        write_file_def parent_ok_def time_time_def numeral_2_eq_2 numeral_3_eq_3 num)
qed

lemma rse_eval_chacha:
  assumes "fs w f = Some (File pt)"
    and "new (ChaCha20Poly1305 L) key = Inr a"
    and "encrypt (ChaCha20Poly1305 L) a (map (entropy w) [0..<12]) pt None = Inr ct"
    and "fs w outdir = Some Dir"
    and "fs w (outdir @ [path_name f @ ''.ChaCha20-Poly1305.ct'']) \<noteq> Some Dir"
  shows "run_single_encryption L f ''ChaCha20-Poly1305'' key outdir w =
    (Inr \<lparr>src_file = f, filesize_bytes = int (length pt), cipher = ''ChaCha20-Poly1305'',
          wall_time_sec = perf_clock w 3 - perf_clock w 2 + (perf_clock w 1 - perf_clock w 0),
          cpu_time_sec = cpu_clock w 1 - cpu_clock w 0,
          output_file = outdir @ [path_name f @ ''.ChaCha20-Poly1305.ct''],
          timestamp = wall_clock w 0, bytes_processed = int (length pt)\<rparr>,
     w\<lparr>fs := (fs w)(outdir @ [path_name f @ ''.ChaCha20-Poly1305.ct'']
                  \<mapsto> File (map (entropy w) [0..<12] @ ct)),
       entropy := (\<lambda>i. entropy w (i + 12)),
       perf_clock := (\<lambda>i. perf_clock w (i + 4)),
       cpu_clock := (\<lambda>i. cpu_clock w (i + 2)),
       wall_clock := (\<lambda>i. wall_clock w (i + 1)),
       trace := trace w @
         [EvStat f, EvPerfCounter (perf_clock w 0), EvRead f,
          EvPerfCounter (perf_clock w 1), EvPerfCounter (perf_clock w 2),
          EvProcessTime (cpu_clock w 0),
          EvAeadNew ''ChaCha20Poly1305'' key, EvTokenBytes 12 (map (entropy w) [0..<12]),
          EvAeadEncrypt ''ChaCha20Poly1305'' (map (entropy w) [0..<12]) pt None,
          EvProcessTime (cpu_clock w 1), EvPerfCounter (perf_clock w 3),
          EvWrite (outdir @ [path_name f @ ''.ChaCha20-Poly1305.ct'']),
          EvTime (wall_clock w 0)]\<rparr>)"
proof -
  have num: "\<And>i::nat. i + 4 = Suc (Suc (Suc (Suc i)))"
    by simp
  from assms show ?thesis
    by (simp add: run_single_encryption_def stat_size_def perf_counter_def read_file_def
        process_time_def log_def Let_def encrypt_chacha_def token_bytes_def
        write_file_def parent_ok_def time_time_def numeral_2_eq_2 numeral_3_eq_3 num)
qed

lemma demo_fs:
  "fs demo_world [''a.bin''] = Some (File [1, 2, 3])"
  "fs demo_world [''big.bin''] = Some (File [1, 2, 3, 4, 5, 6, 7, 8, 9])"
  "fs demo_world [''d''] = Some Dir"
  "fs demo_world [''d'', ''a.bin.AES-GCM.ct''] = None"
  "fs demo_world [''d'', ''a.bin.ChaCha20-Poly1305.ct''] = None"
  by (simp_all add: demo_world_def)

lemma demo_clocks:
  "perf_clock demo_world i = real i" "cpu_clock demo_world i = real i / 2"
  "wall_clock demo_world i = 1000 + real i" "entropy demo_world i = of_nat i"
  "trace demo_world = []"
  by (simp_all add: demo_world_def)

lemma toy_libs_simps:
  "AESGCM toy_libs = toy_aead" "ChaCha20Poly1305 toy_libs = toy_aead"
  by (simp_all add: toy_libs_def)

lemma toy_encrypt_small: "length p \<le> 8 \<Longrightarrow> encrypt toy_aead c n p None = Inr (p @ toy_tag)"
  by (simp add: toy_aead_def)

lemma path_name_single: "path_name [''a.bin''] = ''a.bin''"
  by (simp add: path_name_def is_root_def)

lemma demo_trial:
  "fst (run_single_encryption toy_libs [''a.bin''] ''AES-GCM'' demo_key [''d''] demo_world)
     = Inr \<lparr>src_file = [''a.bin''], filesize_bytes = 3, cipher = ''AES-GCM'',
            wall_time_sec = 2, cpu_time_sec = 1 / 2,
            output_file = [''d'', ''a.bin.AES-GCM.ct''],
            timestamp = 1000, bytes_processed = 3\<rparr>"
  by (subst rse_eval_aes [where pt = "[1, 2, 3]" and a = demo_key and ct = "[1, 2, 3] @ toy_tag"])
    (simp_all add: demo_fs demo_clocks toy_libs_simps toy_new toy_encrypt_small path_name_single)

text \<open>
  C8. The times of a trial record. A successful trial makes thirteen calls, in this
  order: the \<open>stat\<close>; a reading of the clock, the read of the file, a reading of the
  clock; a reading of the clock and one of the CPU time, the three calls of the adapter
  (constructor, nonce, \<open>encrypt\<close>), a reading of the CPU time and one of the clock; the
  write of the ciphertext; the time stamp. The wall time of the record is the
  difference of the two readings around the adapter plus the difference of the two
  readings around the read; the write comes after all four readings. The CPU time is
  the difference of the two readings of the CPU time, with nothing but the calls of
  the adapter between them.
\<close>

theorem trial_record_times:
  assumes "run_single_encryption L f c key outdir w = (Inr m, w')"
  shows "\<exists>plaintext nonce name.
     fs w f = Some (File plaintext)
   \<and> trace w' = trace w @
       [EvStat f, EvPerfCounter (perf_clock w 0), EvRead f, EvPerfCounter (perf_clock w 1),
        EvPerfCounter (perf_clock w 2), EvProcessTime (cpu_clock w 0),
        EvAeadNew name key, EvTokenBytes 12 nonce, EvAeadEncrypt name nonce plaintext None,
        EvProcessTime (cpu_clock w 1), EvPerfCounter (perf_clock w 3),
        EvWrite (output_file m), EvTime (timestamp m)]
   \<and> wall_time_sec m = (perf_clock w 3 - perf_clock w 2) + (perf_clock w 1 - perf_clock w 0)
   \<and> cpu_time_sec m = cpu_clock w 1 - cpu_clock w 0"
proof -
  from rse_success [OF assms] obtain pt ct name where
    "fs w f = Some (File pt)"
    and m: "m = \<lparr>src_file = f, filesize_bytes = int (length pt), cipher = c,
            wall_time_sec = perf_clock w 3 - perf_clock w 2 + (perf_clock w 1 - perf_clock w 0),
            cpu_time_sec = cpu_clock w 1 - cpu_clock w 0,
            output_file = outdir @ [path_name f @ ''.'' @ c @ ''.ct''],
            timestamp = wall_clock w 0, bytes_processed = int (length pt)\<rparr>"
    and w': "w' = w\<lparr>fs := (fs w)(outdir @ [path_name f @ ''.'' @ c @ ''.ct'']
                         \<mapsto> File (map (entropy w) [0..<12] @ ct)),
              entropy := (\<lambda>i. entropy w (i + 12)),
              perf_clock := (\<lambda>i. perf_clock w (i + 4)),
              cpu_clock := (\<lambda>i. cpu_clock w (i + 2)),
              wall_clock := (\<lambda>i. wall_clock w (i + 1)),
              trace := trace w @
                [EvStat f, EvPerfCounter (perf_clock w 0), EvRead f,
                 EvPerfCounter (perf_clock w 1), EvPerfCounter (perf_clock w 2),
                 EvProcessTime (cpu_clock w 0),
                 EvAeadNew name key, EvTokenBytes 12 (map (entropy w) [0..<12]),
                 EvAeadEncrypt name (map (entropy w) [0..<12]) pt None,
                 EvProcessTime (cpu_clock w 1), EvPerfCounter (perf_clock w 3),
                 EvWrite (outdir @ [path_name f @ ''.'' @ c @ ''.ct'']),
                 EvTime (wall_clock w 0)]\<rparr>"
    by blast
  then show ?thesis
    by (intro exI [of _ pt] exI [of _ "map (entropy w) [0..<12]"] exI [of _ name]) simp
qed

theorem trial_record_times_witness:
  "\<exists>m w'. run_single_encryption toy_libs [''a.bin''] ''AES-GCM'' demo_key [''d''] demo_world
       = (Inr m, w')
     \<and> wall_time_sec m = 2 \<and> cpu_time_sec m = 1 / 2
     \<and> wall_time_sec m = (perf_clock demo_world 3 - perf_clock demo_world 2)
                          + (perf_clock demo_world 1 - perf_clock demo_world 0)
     \<and> cpu_time_sec m = cpu_clock demo_world 1 - cpu_clock demo_world 0"
proof -
  obtain m w' where
    r: "run_single_encryption toy_libs [''a.bin''] ''AES-GCM'' demo_key [''d''] demo_world
          = (Inr m, w')"
    using demo_trial by (metis prod.collapse)
  from trial_record_times [OF r] r demo_trial show ?thesis
    by auto
qed

text \<open>
  C10. A cipher name other than the two supported ones. The trial returns no record
  and leaves the file system as it was, with no write among its calls. When the input
  file can be read, the exception is \<open>ValueError "Unsupported cipher"\<close>, raised after
  the \<open>stat\<close>, the read and the readings of the clocks (when it cannot, the exception
  of the \<open>stat\<close> or of the read comes first).
\<close>

theorem unsupported_cipher:
  assumes "c \<noteq> ''AES-GCM''" and "c \<noteq> ''ChaCha20-Poly1305''"
  shows "\<exists>e w'. run_single_encryption L f c key outdir w = (Inl e, w')
           \<and> fs w' = fs w
           \<and> (\<forall>p. EvWrite p \<notin> set (drop (length (trace w)) (trace w')))
           \<and> (\<forall>pt. fs w f = Some (File pt) \<longrightarrow>
                 e = ValueError ''Unsupported cipher''
                 \<and> trace w' = trace w @
                      [EvStat f, EvPerfCounter (perf_clock w 0), EvRead f,
                       EvPerfCounter (perf_clock w 1), EvPerfCounter (perf_clock w 2),
                       EvProcessTime (cpu_clock w 0)])"
proof (cases "fs w f")
  case None
  then show ?thesis
    by (simp add: run_single_encryption_def stat_size_def log_def)
next
  case (Some n)
  show ?thesis
  proof (cases n)
    case Dir
    with Some show ?thesis
      by (simp add: run_single_encryption_def stat_size_def perf_counter_def read_file_def
          log_def Let_def)
  next
    case (File b)
    with Some assms show ?thesis
      by (simp add: run_single_encryption_def stat_size_def perf_counter_def read_file_def
          process_time_def log_def Let_def numeral_2_eq_2)
  qed
qed

theorem unsupported_cipher_witness:
  "fs demo_world [''a.bin''] = Some (File [1, 2, 3])
   \<and> fst (run_single_encryption toy_libs [''a.bin''] ''AES-CBC'' demo_key [''d''] demo_world)
       = Inl (ValueError ''Unsupported cipher'')
   \<and> fs (snd (run_single_encryption toy_libs [''a.bin''] ''AES-CBC'' demo_key [''d''] demo_world))
       = fs demo_world"
  using unsupported_cipher [of "''AES-CBC''" toy_libs "[''a.bin'']" demo_key "[''d'']" demo_world]
  by (auto simp: demo_world_def)

section \<open>The command line: properties\<close>

lemma find_missing_eq:
  "find_missing files w =
     (map path_str (filter (\<lambda>f. fs w f = None) files),
      w\<lparr>trace := trace w @ map EvExists files\<rparr>)"
proof (induction files arbitrary: w)
  case Nil
  show ?case by simp
next
  case (Cons f files)
  show ?case
    by (simp add: Cons.IH path_exists_def log_def)
qed

lemma print_missing_eq:
  "print_missing ms w = w\<lparr>trace := trace w @ map (\<lambda>m. EvPrint (''   '' @ m)) ms\<rparr>"
proof (induction ms arbitrary: w)
  case Nil
  show ?case by simp
next
  case (Cons m ms)
  show ?case
    by (simp add: Cons.IH print_line_def log_def)
qed

text \<open>
  C7. A missing input file. When some input path does not exist, \<open>main\<close> checks each
  path, prints the heading and one line for each missing path, and exits with status 1.
  These are all its calls: no \<open>mkdir\<close>, no trial, no write. The world is as before but
  for the trace, so neither the output directory nor any result file is created.
\<close>

theorem missing_files_fail_fast:
  assumes "\<exists>f\<in>set (arg_files a). fs w f = None"
  shows "main L a w =
    (Exit 1,
     w\<lparr>trace := trace w @ map EvExists (arg_files a)
          @ [EvPrint ''ERROR: these files do not exist:'']
          @ map (\<lambda>f. EvPrint (''   '' @ path_str f)) (filter (\<lambda>f. fs w f = None) (arg_files a))
          @ [EvExit 1]\<rparr>)"
proof -
  from assms have "filter (\<lambda>f. fs w f = None) (arg_files a) \<noteq> []"
    by (auto simp: filter_empty_conv)
  then show ?thesis
    by (simp add: main_def find_missing_eq print_missing_eq print_line_def log_def Let_def
        comp_def)
qed

theorem missing_files_fail_fast_witness:
  "fs demo_world [''nope.bin''] = None
   \<and> fst (main toy_libs demo_args demo_world) = Exit 1
   \<and> fs (snd (main toy_libs demo_args demo_world)) = fs demo_world
   \<and> fs (snd (main toy_libs demo_args demo_world)) [''benchmark_results''] = None
   \<and> trace (snd (main toy_libs demo_args demo_world)) =
       [EvExists [''a.bin''], EvExists [''nope.bin''], EvExists [''d'', ''gone.bin''],
        EvPrint ''ERROR: these files do not exist:'',
        EvPrint ''   nope.bin'', EvPrint ''   d/gone.bin'', EvExit 1]"
proof -
  have m: "\<exists>f\<in>set (arg_files demo_args). fs demo_world f = None"
    by (simp add: demo_args_def demo_world_def)
  show ?thesis
    unfolding missing_files_fail_fast [OF m]
    by (simp add: demo_args_def demo_world_def path_str_def is_root_def)
qed

section \<open>The orchestrator: properties\<close>

subsection \<open>The shape of a trial\<close>

lemma trial_cases:
  assumes "trial L f c ka kc od i (rows, w) = (rows', w')"
  shows "(\<exists>m. run_single_encryption L f c (if c = ''AES-GCM'' then ka else kc) od w = (Inr m, w')
              \<and> rows' = rows @ [with_iter m i])
       \<or> (\<exists>e. run_single_encryption L f c (if c = ''AES-GCM'' then ka else kc) od w = (Inl e, w')
              \<and> rows' = rows)"
  using assms
  by (auto simp: trial_def Let_def split: prod.splits sum.splits)

lemma with_iter_simps [simp]:
  "src_file (with_iter m i) = src_file m" "cipher (with_iter m i) = cipher m"
  "output_file (with_iter m i) = output_file m" "iter (with_iter m i) = i"
  "filesize_bytes (with_iter m i) = filesize_bytes m"
  by (simp_all add: with_iter_def)

lemma rse_record:
  assumes "run_single_encryption L f c key od w = (Inr m, w')"
  shows "src_file m = f \<and> cipher m = c \<and> output_file m = od @ [path_name f @ ''.'' @ c @ ''.ct'']
         \<and> c \<in> set ciphers \<and> is_file (fs w' (output_file m))"
  using rse_success [OF assms]
  by (auto simp: ciphers_def is_file_def)


subsection \<open>Invariants of the loops\<close>

lemma iter_loop_invariant:
  assumes "\<And>i s. I s \<Longrightarrow> I (trial L f c ka kc od i s)" and "I s"
  shows "I (iter_loop L f c ka kc od is s)"
  using assms(2)
  by (induction "is" arbitrary: s) (simp_all add: assms(1))

lemma cipher_loop_invariant:
  assumes "\<And>c i s. c \<in> set cs \<Longrightarrow> I s \<Longrightarrow> I (trial L f c ka kc od i s)" and "I s"
  shows "I (cipher_loop L f cs ka kc od iters s)"
  using assms
proof (induction cs arbitrary: s)
  case Nil
  then show ?case by simp
next
  case (Cons c cs)
  have "I (iter_loop L f c ka kc od [1..iters] s)"
    by (rule iter_loop_invariant) (simp_all add: Cons.prems)
  then show ?case
    by (simp add: Cons.IH Cons.prems(1))
qed

lemma file_loop_invariant:
  assumes tr: "\<And>f c i s. f \<in> set files \<Longrightarrow> c \<in> set ciphers \<Longrightarrow> I s
                 \<Longrightarrow> I (trial L f c ka kc od i s)"
    and st: "\<And>f rows w. f \<in> set files \<Longrightarrow> I (rows, w) \<Longrightarrow> I (rows, log (EvStat f) w)"
    and "I s"
  shows "\<exists>rows. I (rows, snd (file_loop L files ka kc od iters s))
           \<and> (\<forall>rs. fst (file_loop L files ka kc od iters s) = Inr rs \<longrightarrow> rs = rows)"
  using assms
proof (induction files arbitrary: s)
  case Nil
  then show ?case by (cases s) auto
next
  case (Cons f files)
  obtain rows w where s: "s = (rows, w)" by (cases s)
  obtain r w1 where stat: "stat_size f w = (r, w1)" by (cases "stat_size f w")
  then have w1: "w1 = log (EvStat f) w" by (rule stat_size_cases)
  have I1: "I (rows, w1)" using Cons.prems(2) [of f rows w] Cons.prems(3) s w1 by simp
  show ?case
  proof (cases r)
    case (Inl e)
    with s stat I1 show ?thesis by auto
  next
    case (Inr sz)
    have "I (cipher_loop L f ciphers ka kc od iters (rows, w1))"
      by (rule cipher_loop_invariant) (simp_all add: Cons.prems(1) I1)
    from Cons.IH [OF _ _ this] Cons.prems(1,2) s stat Inr show ?thesis
      by simp
  qed
qed


subsection \<open>Traces\<close>

















subsection \<open>Files on disk\<close>

lemma rse_keeps_files:
  assumes "run_single_encryption L f c key od w = (r, w')" and "is_file (fs w p)"
  shows "is_file (fs w' p)"
proof (cases r)
  case (Inl e)
  with assms rse_failure [of L f c key od w e w'] show ?thesis by simp
next
  case (Inr m)
  with assms have "run_single_encryption L f c key od w = (Inr m, w')" by simp
  from rse_success [OF this] assms(2) show ?thesis
    by (auto simp: is_file_def)
qed

lemma trial_files_written:
  assumes "\<forall>r\<in>set (fst s). is_file (fs (snd s) (output_file r))"
  shows "\<forall>r\<in>set (fst (trial L f c ka kc od i s)).
           is_file (fs (snd (trial L f c ka kc od i s)) (output_file r))"
proof -
  obtain rows w where s: "s = (rows, w)" by (cases s)
  obtain rows' w' where t: "trial L f c ka kc od i (rows, w) = (rows', w')"
    by (cases "trial L f c ka kc od i (rows, w)")
  let ?key = "if c = ''AES-GCM'' then ka else kc"
  have old: "is_file (fs w' (output_file x))"
    if "x \<in> set rows" and "run_single_encryption L f c ?key od w = (r, w')" for x r
    using that assms s rse_keeps_files [of L f c ?key od w r w'] by simp
  from trial_cases [OF t] have "\<forall>r\<in>set rows'. is_file (fs w' (output_file r))"
  proof (elim disjE exE conjE)
    fix m
    assume r: "run_single_encryption L f c ?key od w = (Inr m, w')"
      and rows': "rows' = rows @ [with_iter m i]"
    from rse_record [OF r] have "is_file (fs w' (output_file m))"
      by blast
    with old [OF _ r] rows' show ?thesis
      by auto
  next
    fix e
    assume r: "run_single_encryption L f c ?key od w = (Inl e, w')" and "rows' = rows"
    with old [OF _ r] show ?thesis
      by blast
  qed
  with s t show ?thesis by simp
qed

lemma trial_rows_named:
  assumes "\<forall>r\<in>set (fst s).
             output_file r = od @ [path_name (src_file r) @ ''.'' @ cipher r @ ''.ct'']"
  shows "\<forall>r\<in>set (fst (trial L f c ka kc od i s)).
             output_file r = od @ [path_name (src_file r) @ ''.'' @ cipher r @ ''.ct'']"
proof -
  obtain rows w where s: "s = (rows, w)" by (cases s)
  obtain rows' w' where t: "trial L f c ka kc od i (rows, w) = (rows', w')"
    by (cases "trial L f c ka kc od i (rows, w)")
  from trial_cases [OF t] assms s t show ?thesis
    by (auto dest!: rse_record)
qed

lemma file_loop_files_written:
  assumes "file_loop L files ka kc od iters ([], w) = (Inr rows, w')"
  shows "\<forall>r\<in>set rows. is_file (fs w' (output_file r))"
proof -
  let ?I = "\<lambda>s :: row list \<times> world. \<forall>r\<in>set (fst s). is_file (fs (snd s) (output_file r))"
  have "\<exists>rs. ?I (rs, snd (file_loop L files ka kc od iters ([], w)))
           \<and> (\<forall>x. fst (file_loop L files ka kc od iters ([], w)) = Inr x \<longrightarrow> x = rs)"
  proof (rule file_loop_invariant [where I = ?I])
    show "?I ([], w)" by simp
  next
    fix f c i and s :: "row list \<times> world"
    assume "?I s"
    then show "?I (trial L f c ka kc od i s)"
      by (rule trial_files_written)
  next
    fix f rs v
    assume "?I (rs, v)"
    then show "?I (rs, log (EvStat f) v)"
      by (simp add: log_def)
  qed
  with assms show ?thesis by simp
qed

lemma file_loop_rows_named:
  assumes "file_loop L files ka kc od iters ([], w) = (Inr rows, w')"
  shows "\<forall>r\<in>set rows. output_file r = od @ [path_name (src_file r) @ ''.'' @ cipher r @ ''.ct'']"
proof -
  let ?I = "\<lambda>s :: row list \<times> world. \<forall>r\<in>set (fst s).
      output_file r = od @ [path_name (src_file r) @ ''.'' @ cipher r @ ''.ct'']"
  have "\<exists>rs. ?I (rs, snd (file_loop L files ka kc od iters ([], w)))
           \<and> (\<forall>x. fst (file_loop L files ka kc od iters ([], w)) = Inr x \<longrightarrow> x = rs)"
  proof (rule file_loop_invariant [where I = ?I])
    show "?I ([], w)" by simp
  next
    fix f c i and s :: "row list \<times> world"
    assume "?I s"
    then show "?I (trial L f c ka kc od i s)"
      by (rule trial_rows_named)
  next
    fix f rs v
    assume "?I (rs, v)"
    then show "?I (rs, log (EvStat f) v)"
      by simp
  qed
  with assms show ?thesis by simp
qed

lemma run_matrix_file_loop:
  assumes "run_matrix L files iters od w = (Inr rows, w')"
  shows "\<exists>ka kc w4 w5. file_loop L files ka kc od iters ([], w4) = (Inr rows, w5)
           \<and> fs w' = fs w5"
proof -
  from assms obtain ka kc w4 w5 where
    "file_loop L files ka kc od iters ([], w4) = (Inr rows, w5)"
    and "w' = snd (perf_counter w5)"
    by (auto simp: run_matrix_def Let_def split: prod.splits sum.splits)
  then show ?thesis
    by (auto simp: perf_counter_def Let_def log_def)
qed

lemma write_file_keeps_files:
  "is_file (fs w p) \<Longrightarrow> is_file (fs (snd (write_file q b w)) p)"
  by (auto simp: write_file_def log_def is_file_def split: option.splits node.splits)

lemma cleanup_fs:
  "fs (cleanup ps w) = (\<lambda>p. if p \<in> set ps \<and> is_file (fs w p) then None else fs w p)"
proof (induction ps arbitrary: w)
  case Nil
  show ?case by simp
next
  case (Cons q ps)
  show ?case
    by (auto simp: Cons.IH remove_file_def log_def is_file_def fun_eq_iff
        split: option.splits node.splits)
qed

lemma unique_set: "set (unique xs) = set xs"
  by (simp add: unique_def)


lemma report_files:
  assumes "report L rows od keep w = (Inr (), w')" and "is_file (fs w p)"
  shows "if \<not> keep \<and> p \<in> output_file ` set rows then fs w' p = None else is_file (fs w' p)"
proof -
  let ?csv = "od @ [''raw_results.csv'']" and ?sum = "od @ [''summary_avg.csv'']"
  let ?png1 = "od @ [''time_avg.png'']" and ?png2 = "od @ [''cpu_avg.png'']"
  from assms(1) obtain b1 b2 b3 b4 w1 w2 w3 w4 where
    1: "write_file ?csv b1 w = (Inr (), w1)" and
    2: "write_file ?sum b2 w1 = (Inr (), w2)" and
    3: "write_file ?png1 b3 w2 = (Inr (), w3)" and
    4: "write_file ?png2 b4 w3 = (Inr (), w4)" and
    w': "w' = (if \<not> keep then cleanup (unique (map output_file rows)) w4 else w4)"
    unfolding report_def
    by (auto split: prod.splits sum.splits if_splits)
  have "is_file (fs w1 p)" using write_file_keeps_files [OF assms(2), of ?csv b1] 1 by simp
  then have "is_file (fs w2 p)" using write_file_keeps_files [of w1 p ?sum b2] 2 by simp
  then have "is_file (fs w3 p)" using write_file_keeps_files [of w2 p ?png1 b3] 3 by simp
  then have "is_file (fs w4 p)" using write_file_keeps_files [of w3 p ?png2 b4] 4 by simp
  then show ?thesis
    by (simp add: w' cleanup_fs unique_set)
qed

text \<open>
  C9, as amended. The ciphertext files of a run that completes. Every trial record
  names as its output file the path in the output directory made of the base name of
  the source file, the cipher identifier and the ending \<open>ct\<close>: the iteration is not
  part of the name, so the trials of one file name and cipher write one and the same
  file, each over the last. With retention requested, the output file of every record
  is a file on disk at the end of the run; without, none of them is left. The clean-up
  passes over a removal that fails: whatever the list of paths, it leaves exactly the
  listed paths that were files removed and everything else as it was.
\<close>

theorem ciphertext_files:
  assumes m: "run_matrix L files iters outdir w = (Inr rows, w1)"
    and b: "report L rows outdir keep_outputs w1 = (Inr (), w')"
  shows "(\<forall>r\<in>set rows.
            output_file r = outdir @ [path_name (src_file r) @ ''.'' @ cipher r @ ''.ct''])
       \<and> (keep_outputs \<longrightarrow> (\<forall>r\<in>set rows. is_file (fs w' (output_file r))))
       \<and> (\<not> keep_outputs \<longrightarrow> (\<forall>r\<in>set rows. fs w' (output_file r) = None))
       \<and> (\<forall>ps v. fs (cleanup ps v)
              = (\<lambda>p. if p \<in> set ps \<and> is_file (fs v p) then None else fs v p))"
proof -
  from run_matrix_file_loop [OF m] obtain ka kc w4 w5 where
    fl: "file_loop L files ka kc outdir iters ([], w4) = (Inr rows, w5)"
    and fs: "fs w1 = fs w5"
    by blast
  have named: "\<forall>r\<in>set rows.
      output_file r = outdir @ [path_name (src_file r) @ ''.'' @ cipher r @ ''.ct'']"
    by (rule file_loop_rows_named [OF fl])
  have written: "is_file (fs w1 (output_file r))" if "r \<in> set rows" for r
    using file_loop_files_written [OF fl] that fs by simp
  have "if \<not> keep_outputs then fs w' (output_file r) = None else is_file (fs w' (output_file r))"
    if "r \<in> set rows" for r
    using report_files [OF b written [OF that]] that by auto
  with named show ?thesis
    by (auto simp: cleanup_fs)
qed

subsection \<open>The rows of a pair\<close>

lemma iter_loop_rows:
  "\<exists>new. fst (iter_loop L f c ka kc od is (rows, w)) = rows @ new
         \<and> (\<forall>r\<in>set new. src_file r = f \<and> cipher r = c)
         \<and> map iter new = successes L f c ka kc od is w
         \<and> snd (iter_loop L f c ka kc od is (rows, w)) = snd (iter_loop L f c ka kc od is (rows0, w))"
proof (induction "is" arbitrary: rows rows0 w)
  case Nil
  show ?case by simp
next
  case (Cons i "is")
  let ?key = "if c = ''AES-GCM'' then ka else kc"
  obtain r w1 where r: "run_single_encryption L f c ?key od w = (r, w1)"
    by (cases "run_single_encryption L f c ?key od w")
  show ?case
  proof (cases r)
    case (Inl e)
    with r have t: "trial L f c ka kc od i (rows, w) = (rows, w1)"
      "trial L f c ka kc od i (rows0, w) = (rows0, w1)"
      by (simp_all add: trial_def)
    from Cons.IH [of rows w1 rows0] r Inl t show ?thesis
      by auto
  next
    case (Inr m)
    with r have t: "trial L f c ka kc od i (rows, w) = (rows @ [with_iter m i], w1)"
      "trial L f c ka kc od i (rows0, w) = (rows0 @ [with_iter m i], w1)"
      by (simp_all add: trial_def)
    from r Inr have m: "src_file m = f" "cipher m = c"
      using rse_record [of L f c ?key od w m w1] by simp_all
    from Cons.IH [of "rows @ [with_iter m i]" w1 "rows0 @ [with_iter m i]"] obtain new where
      "fst (iter_loop L f c ka kc od is (rows @ [with_iter m i], w1))
         = (rows @ [with_iter m i]) @ new"
      and "\<forall>r\<in>set new. src_file r = f \<and> cipher r = c"
      and "map iter new = successes L f c ka kc od is w1"
      and "snd (iter_loop L f c ka kc od is (rows @ [with_iter m i], w1))
         = snd (iter_loop L f c ka kc od is (rows0 @ [with_iter m i], w1))"
      by blast
    with r Inr t m show ?thesis
      by (intro exI [of _ "with_iter m i # new"]) simp
  qed
qed

lemma successes_sub:
  "set (successes L f c ka kc od is w) \<subseteq> set is
   \<and> length (successes L f c ka kc od is w) \<le> length is
   \<and> (distinct is \<longrightarrow> distinct (successes L f c ka kc od is w))
   \<and> (sorted is \<longrightarrow> sorted (successes L f c ka kc od is w))
   \<and> (length (successes L f c ka kc od is w) = length is
        \<longrightarrow> successes L f c ka kc od is w = is)"
proof (induction "is" arbitrary: w)
  case Nil
  show ?case by simp
next
  case (Cons i "is")
  let ?key = "if c = ''AES-GCM'' then ka else kc"
  obtain r w1 where r: "run_single_encryption L f c ?key od w = (r, w1)"
    by (cases "run_single_encryption L f c ?key od w")
  from Cons.IH [of w1] r show ?case
    by (cases r) (auto simp: le_Suc_eq)
qed


lemma cipher_loop_ciphers:
  "cipher_loop L f ciphers ka kc od iters s =
     iter_loop L f ''ChaCha20-Poly1305'' ka kc od [1..iters]
       (iter_loop L f ''AES-GCM'' ka kc od [1..iters] s)"
  by (simp add: ciphers_def)

lemma file_loop_append:
  "file_loop L (xs @ ys) ka kc od iters s =
     (case file_loop L xs ka kc od iters s of
        (Inl e, w1) \<Rightarrow> (Inl e, w1)
      | (Inr rs, w1) \<Rightarrow> file_loop L ys ka kc od iters (rs, w1))"
proof (induction xs arbitrary: s)
  case Nil
  show ?case by simp
next
  case (Cons x xs)
  show ?case
    by (simp add: Cons.IH split: prod.splits sum.splits)
qed

lemma trial_rows_from:
  assumes "\<exists>new. fst s = rows @ new \<and> (\<forall>r\<in>set new. src_file r \<in> F)" and "f \<in> F"
  shows "\<exists>new. fst (trial L f c ka kc od i s) = rows @ new \<and> (\<forall>r\<in>set new. src_file r \<in> F)"
proof -
  obtain rs w where s: "s = (rs, w)" by (cases s)
  obtain rs' w' where t: "trial L f c ka kc od i (rs, w) = (rs', w')"
    by (cases "trial L f c ka kc od i (rs, w)")
  from assms(1) s obtain new where new: "rs = rows @ new" "\<forall>r\<in>set new. src_file r \<in> F"
    by auto
  from trial_cases [OF t] show ?thesis
  proof (elim disjE exE conjE)
    fix m
    assume r: "run_single_encryption L f c (if c = ''AES-GCM'' then ka else kc) od w = (Inr m, w')"
      and "rs' = rs @ [with_iter m i]"
    with new assms(2) rse_record [OF r] s t show ?thesis
      by (intro exI [of _ "new @ [with_iter m i]"]) simp
  next
    fix e
    assume "rs' = rs"
    with new s t show ?thesis by auto
  qed
qed

lemma file_loop_rows:
  assumes "file_loop L files ka kc od iters (rows, w) = (Inr rows', w')"
  shows "\<exists>new. rows' = rows @ new \<and> (\<forall>r\<in>set new. src_file r \<in> set files)"
proof -
  let ?I = "\<lambda>s :: row list \<times> world.
      \<exists>new. fst s = rows @ new \<and> (\<forall>r\<in>set new. src_file r \<in> set files)"
  have "\<exists>rs. ?I (rs, snd (file_loop L files ka kc od iters (rows, w)))
           \<and> (\<forall>x. fst (file_loop L files ka kc od iters (rows, w)) = Inr x \<longrightarrow> x = rs)"
  proof (rule file_loop_invariant [where I = ?I])
    show "?I (rows, w)" by simp
  next
    fix f c i and s :: "row list \<times> world"
    assume "f \<in> set files" and "?I s"
    then show "?I (trial L f c ka kc od i s)"
      using trial_rows_from [of s rows "set files" f L c ka kc od i] by blast
  next
    fix f rs v
    assume "?I (rs, v)"
    then show "?I (rs, log (EvStat f) v)"
      by simp
  qed
  with assms show ?thesis by simp
qed


text \<open>
  C5, as amended. The rows of a file and a cipher, for a file that occurs once in the
  list of input files. When the loops complete, the rows of the raw table for that file
  and cipher are the records of the trials of that pair that returned one, in the
  order of the iterations: their iteration indices are the indices at which the trial
  succeeded, replayed from the world in which the loop of the pair started (for
  AES-GCM the world after the \<open>stat\<close> of the file, for ChaCha20-Poly1305 the world the
  loop of AES-GCM left). A trial that raises adds no row and the loop goes on with the
  next index. So the indices are distinct, ascending and within \<open>1..N\<close>, there are at
  most \<open>N\<close> rows, and when there are \<open>N\<close> the indices are exactly \<open>1..N\<close>.
\<close>

theorem pair_rows_are_successes:
  assumes fl: "file_loop L (pre @ f # post) ka kc outdir iters ([], w) = (Inr rows, w')"
    and pre: "f \<notin> set pre" and post: "f \<notin> set post"
  shows "\<exists>rows_pre w_pre.
      file_loop L pre ka kc outdir iters ([], w) = (Inr rows_pre, w_pre)
    \<and> map iter (pair_rows f ''AES-GCM'' rows)
        = successes L f ''AES-GCM'' ka kc outdir [1..iters] (log (EvStat f) w_pre)
    \<and> map iter (pair_rows f ''ChaCha20-Poly1305'' rows)
        = successes L f ''ChaCha20-Poly1305'' ka kc outdir [1..iters]
            (snd (iter_loop L f ''AES-GCM'' ka kc outdir [1..iters]
                    (rows_pre, log (EvStat f) w_pre)))
    \<and> (\<forall>c\<in>set ciphers.
          distinct (map iter (pair_rows f c rows))
        \<and> sorted (map iter (pair_rows f c rows))
        \<and> set (map iter (pair_rows f c rows)) \<subseteq> {1..iters}
        \<and> length (pair_rows f c rows) \<le> nat iters
        \<and> (length (pair_rows f c rows) = nat iters
             \<longrightarrow> map iter (pair_rows f c rows) = [1..iters]))"
proof -
  let ?A = "''AES-GCM''" and ?C = "''ChaCha20-Poly1305''"
  from fl obtain rows_pre w_pre where
    p: "file_loop L pre ka kc outdir iters ([], w) = (Inr rows_pre, w_pre)"
    and q: "file_loop L (f # post) ka kc outdir iters (rows_pre, w_pre) = (Inr rows, w')"
    by (auto simp: file_loop_append split: prod.splits sum.splits)
  let ?w0 = "log (EvStat f) w_pre"
  let ?sA = "iter_loop L f ?A ka kc outdir [1..iters] (rows_pre, ?w0)"
  from q have q': "file_loop L post ka kc outdir iters
      (iter_loop L f ?C ka kc outdir [1..iters] ?sA) = (Inr rows, w')"
    by (auto simp: cipher_loop_ciphers split: prod.splits sum.splits dest: stat_size_cases)
  from iter_loop_rows [of L f ?A ka kc outdir "[1..iters]" rows_pre ?w0 rows_pre]
  obtain newA where
    a: "fst ?sA = rows_pre @ newA" "\<forall>r\<in>set newA. src_file r = f \<and> cipher r = ?A"
       "map iter newA = successes L f ?A ka kc outdir [1..iters] ?w0"
    by blast
  let ?sC = "iter_loop L f ?C ka kc outdir [1..iters] (rows_pre @ newA, snd ?sA)"
  from a(1) have sA: "?sA = (rows_pre @ newA, snd ?sA)"
    by (simp add: prod_eq_iff)
  from iter_loop_rows [of L f ?C ka kc outdir "[1..iters]" "rows_pre @ newA" "snd ?sA"
      "rows_pre @ newA"]
  obtain newC where
    c: "fst ?sC = (rows_pre @ newA) @ newC" "\<forall>r\<in>set newC. src_file r = f \<and> cipher r = ?C"
       "map iter newC = successes L f ?C ka kc outdir [1..iters] (snd ?sA)"
    by blast
  from c(1) have sC: "?sC = (rows_pre @ newA @ newC, snd ?sC)"
    by (simp add: prod_eq_iff)
  from q' sA sC have "file_loop L post ka kc outdir iters (rows_pre @ newA @ newC, snd ?sC)
      = (Inr rows, w')"
    by simp
  from file_loop_rows [OF this] obtain newP where
    r: "rows = (rows_pre @ newA @ newC) @ newP" "\<forall>r\<in>set newP. src_file r \<in> set post"
    by blast
  from file_loop_rows [OF p] have rp: "\<forall>r\<in>set rows_pre. src_file r \<in> set pre"
    by simp
  have none_pre: "filter (\<lambda>r. src_file r = f \<and> cipher r = x) rows_pre = []" for x
    using rp pre by (auto simp: filter_empty_conv)
  have none_post: "filter (\<lambda>r. src_file r = f \<and> cipher r = x) newP = []" for x
    using r(2) post by (auto simp: filter_empty_conv)
  have AA: "filter (\<lambda>r. src_file r = f \<and> cipher r = ?A) newA = newA"
    using a(2) by (simp add: filter_id_conv)
  have AC: "filter (\<lambda>r. src_file r = f \<and> cipher r = ?C) newA = []"
    using a(2) by (auto simp: filter_empty_conv)
  have CC: "filter (\<lambda>r. src_file r = f \<and> cipher r = ?C) newC = newC"
    using c(2) by (simp add: filter_id_conv)
  have CA: "filter (\<lambda>r. src_file r = f \<and> cipher r = ?A) newC = []"
    using c(2) by (auto simp: filter_empty_conv)
  have rowsA: "pair_rows f ?A rows = newA"
    by (simp add: pair_rows_def r(1) none_pre none_post AA CA)
  have rowsC: "pair_rows f ?C rows = newC"
    by (simp add: pair_rows_def r(1) none_pre none_post AC CC)
  have len: "length [1..iters] = nat iters"
    by simp
  have props: "distinct (successes L f x ka kc outdir [1..iters] v)
      \<and> sorted (successes L f x ka kc outdir [1..iters] v)
      \<and> set (successes L f x ka kc outdir [1..iters] v) \<subseteq> {1..iters}
      \<and> length (successes L f x ka kc outdir [1..iters] v) \<le> nat iters
      \<and> (length (successes L f x ka kc outdir [1..iters] v) = nat iters
           \<longrightarrow> successes L f x ka kc outdir [1..iters] v = [1..iters])" for x v
    using successes_sub [of L f x ka kc outdir "[1..iters]" v]
    by (simp only: len distinct_upto sorted_upto set_upto) simp
  have P: "distinct (map iter new) \<and> sorted (map iter new)
      \<and> set (map iter new) \<subseteq> {1..iters} \<and> length new \<le> nat iters
      \<and> (length new = nat iters \<longrightarrow> map iter new = [1..iters])"
    if e: "map iter new = successes L f x ka kc outdir [1..iters] v" for new x v
  proof -
    have "length new = length (successes L f x ka kc outdir [1..iters] v)"
      using e by (metis length_map)
    with props [of x v] e show ?thesis by simp
  qed
  have "\<forall>c\<in>set ciphers.
          distinct (map iter (pair_rows f c rows))
        \<and> sorted (map iter (pair_rows f c rows))
        \<and> set (map iter (pair_rows f c rows)) \<subseteq> {1..iters}
        \<and> length (pair_rows f c rows) \<le> nat iters
        \<and> (length (pair_rows f c rows) = nat iters
             \<longrightarrow> map iter (pair_rows f c rows) = [1..iters])"
    using P [OF a(3)] P [OF c(3)]
    by (simp add: ciphers_def rowsA rowsC)
  with p rowsA rowsC a(3) c(3) show ?thesis
    by blast
qed

section \<open>Runs of the small instance\<close>

lemma upto_1_2: "[1..2] = [1, 2]"
  by (simp add: upto.simps)

lemma rse_eval_dir:
  assumes "fs w f = Some Dir"
  shows "run_single_encryption L f c key outdir w =
    (Inl IsADirectoryError,
     w\<lparr>perf_clock := (\<lambda>i. perf_clock w (i + 1)),
       trace := trace w @ [EvStat f, EvPerfCounter (perf_clock w 0), EvRead f]\<rparr>)"
  using assms
  by (simp add: run_single_encryption_def stat_size_def perf_counter_def read_file_def
      log_def Let_def)

lemma toy_rse_aes:
  assumes "fs w f = Some (File pt)" and "length pt \<le> 8" and "length key = 32"
    and "fs w outdir = Some Dir"
    and "fs w (outdir @ [path_name f @ ''.AES-GCM.ct'']) \<noteq> Some Dir"
  shows "run_single_encryption toy_libs f ''AES-GCM'' key outdir w =
    (Inr \<lparr>src_file = f, filesize_bytes = int (length pt), cipher = ''AES-GCM'',
          wall_time_sec = perf_clock w 3 - perf_clock w 2 + (perf_clock w 1 - perf_clock w 0),
          cpu_time_sec = cpu_clock w 1 - cpu_clock w 0,
          output_file = outdir @ [path_name f @ ''.AES-GCM.ct''],
          timestamp = wall_clock w 0, bytes_processed = int (length pt)\<rparr>,
     w\<lparr>fs := (fs w)(outdir @ [path_name f @ ''.AES-GCM.ct'']
                  \<mapsto> File (map (entropy w) [0..<12] @ pt @ toy_tag)),
       entropy := (\<lambda>i. entropy w (i + 12)),
       perf_clock := (\<lambda>i. perf_clock w (i + 4)),
       cpu_clock := (\<lambda>i. cpu_clock w (i + 2)),
       wall_clock := (\<lambda>i. wall_clock w (i + 1)),
       trace := trace w @
         [EvStat f, EvPerfCounter (perf_clock w 0), EvRead f,
          EvPerfCounter (perf_clock w 1), EvPerfCounter (perf_clock w 2),
          EvProcessTime (cpu_clock w 0),
          EvAeadNew ''AESGCM'' key, EvTokenBytes 12 (map (entropy w) [0..<12]),
          EvAeadEncrypt ''AESGCM'' (map (entropy w) [0..<12]) pt None,
          EvProcessTime (cpu_clock w 1), EvPerfCounter (perf_clock w 3),
          EvWrite (outdir @ [path_name f @ ''.AES-GCM.ct'']),
          EvTime (wall_clock w 0)]\<rparr>)"
  by (rule rse_eval_aes [where a = key])
    (use assms in \<open>simp_all add: toy_libs_def toy_aead_def\<close>)

lemma toy_rse_chacha:
  assumes "fs w f = Some (File pt)" and "length pt \<le> 8" and "length key = 32"
    and "fs w outdir = Some Dir"
    and "fs w (outdir @ [path_name f @ ''.ChaCha20-Poly1305.ct'']) \<noteq> Some Dir"
  shows "run_single_encryption toy_libs f ''ChaCha20-Poly1305'' key outdir w =
    (Inr \<lparr>src_file = f, filesize_bytes = int (length pt), cipher = ''ChaCha20-Poly1305'',
          wall_time_sec = perf_clock w 3 - perf_clock w 2 + (perf_clock w 1 - perf_clock w 0),
          cpu_time_sec = cpu_clock w 1 - cpu_clock w 0,
          output_file = outdir @ [path_name f @ ''.ChaCha20-Poly1305.ct''],
          timestamp = wall_clock w 0, bytes_processed = int (length pt)\<rparr>,
     w\<lparr>fs := (fs w)(outdir @ [path_name f @ ''.ChaCha20-Poly1305.ct'']
                  \<mapsto> File (map (entropy w) [0..<12] @ pt @ toy_tag)),
       entropy := (\<lambda>i. entropy w (i + 12)),
       perf_clock := (\<lambda>i. perf_clock w (i + 4)),
       cpu_clock := (\<lambda>i. cpu_clock w (i + 2)),
       wall_clock := (\<lambda>i. wall_clock w (i + 1)),
       trace := trace w @
         [EvStat f, EvPerfCounter (perf_clock w 0), EvRead f,
          EvPerfCounter (perf_clock w 1), EvPerfCounter (perf_clock w 2),
          EvProcessTime (cpu_clock w 0),
          EvAeadNew ''ChaCha20Poly1305'' key, EvTokenBytes 12 (map (entropy w) [0..<12]),
          EvAeadEncrypt ''ChaCha20Poly1305'' (map (entropy w) [0..<12]) pt None,
          EvProcessTime (cpu_clock w 1), EvPerfCounter (perf_clock w 3),
          EvWrite (outdir @ [path_name f @ ''.ChaCha20-Poly1305.ct'']),
          EvTime (wall_clock w 0)]\<rparr>)"
  by (rule rse_eval_chacha [where a = key])
    (use assms in \<open>simp_all add: toy_libs_def toy_aead_def\<close>)

lemma demo_fs_eq:
  "fs demo_world = [[''a.bin''] \<mapsto> File [1, 2, 3],
                    [''big.bin''] \<mapsto> File [1, 2, 3, 4, 5, 6, 7, 8, 9],
                    [''d''] \<mapsto> Dir]"
  by (simp add: demo_world_def)

lemma ancestors_single: "ancestors [d] = [[d]]"
  by (simp add: ancestors_def)

lemmas demo_eval =
  run_matrix_def mkdir_parents_def ancestors_single is_file_def token_bytes_def
  perf_counter_def log_def Let_def ciphers_def stat_size_def upto_1_2 trial_def
  toy_rse_aes [where pt = "[1, 2, 3]"] toy_rse_chacha [where pt = "[1, 2, 3]"] rse_eval_dir
  demo_fs_eq demo_clocks path_name_single with_iter_def demo_trial_row_def demo_key_def

lemma demo_matrix:
  "(case run_matrix toy_libs [[''a.bin'']] 2 [''out''] demo_world of (r, W) \<Rightarrow> (r, fs W)) =
     (Inr [demo_trial_row [''out''] ''AES-GCM'' 1000 1,
           demo_trial_row [''out''] ''AES-GCM'' 1001 2,
           demo_trial_row [''out''] ''ChaCha20-Poly1305'' 1002 1,
           demo_trial_row [''out''] ''ChaCha20-Poly1305'' 1003 2],
      [[''a.bin''] \<mapsto> File [1, 2, 3],
       [''big.bin''] \<mapsto> File [1, 2, 3, 4, 5, 6, 7, 8, 9],
       [''d''] \<mapsto> Dir,
       [''out''] \<mapsto> Dir,
       [''out'', ''a.bin.AES-GCM.ct'']
         \<mapsto> File (map (\<lambda>i. of_nat (i + 76)) [0..<12] @ [1, 2, 3] @ toy_tag),
       [''out'', ''a.bin.ChaCha20-Poly1305.ct'']
         \<mapsto> File (map (\<lambda>i. of_nat (i + 100)) [0..<12] @ [1, 2, 3] @ toy_tag)])"
  by (simp add: demo_eval) (simp add: add.commute)

lemma demo_matrix_twice:
  "fst (run_matrix toy_libs [[''a.bin''], [''a.bin'']] 1 [''out''] demo_world) =
     Inr [demo_trial_row [''out''] ''AES-GCM'' 1000 1,
          demo_trial_row [''out''] ''ChaCha20-Poly1305'' 1001 1,
          demo_trial_row [''out''] ''AES-GCM'' 1002 1,
          demo_trial_row [''out''] ''ChaCha20-Poly1305'' 1003 1]"
  by (simp add: demo_eval)

lemma demo_loops_dir:
  "fst (file_loop toy_libs [[''d''], [''a.bin'']] demo_key demo_key [''d''] 2 ([], demo_world)) =
     Inr [demo_trial_row [''d''] ''AES-GCM'' 1000 1,
          demo_trial_row [''d''] ''AES-GCM'' 1001 2,
          demo_trial_row [''d''] ''ChaCha20-Poly1305'' 1002 1,
          demo_trial_row [''d''] ''ChaCha20-Poly1305'' 1003 2]"
  by (simp add: demo_eval)


lemma demo_matrix_run:
  obtains W1 where
    "run_matrix toy_libs [[''a.bin'']] 2 [''out''] demo_world =
       (Inr [demo_trial_row [''out''] ''AES-GCM'' 1000 1,
             demo_trial_row [''out''] ''AES-GCM'' 1001 2,
             demo_trial_row [''out''] ''ChaCha20-Poly1305'' 1002 1,
             demo_trial_row [''out''] ''ChaCha20-Poly1305'' 1003 2], W1)"
    and "fs W1 = [[''a.bin''] \<mapsto> File [1, 2, 3],
       [''big.bin''] \<mapsto> File [1, 2, 3, 4, 5, 6, 7, 8, 9],
       [''d''] \<mapsto> Dir,
       [''out''] \<mapsto> Dir,
       [''out'', ''a.bin.AES-GCM.ct'']
         \<mapsto> File (map (\<lambda>i. of_nat (i + 76)) [0..<12] @ [1, 2, 3] @ toy_tag),
       [''out'', ''a.bin.ChaCha20-Poly1305.ct'']
         \<mapsto> File (map (\<lambda>i. of_nat (i + 100)) [0..<12] @ [1, 2, 3] @ toy_tag)]"
  using demo_matrix
  by (cases "run_matrix toy_libs [[''a.bin'']] 2 [''out''] demo_world") simp

lemma toy_render:
  "raw_to_csv toy_libs rows = []" "summary_to_csv toy_libs t = []"
  "bar_chart toy_libs title p = []"
  by (simp_all add: toy_libs_def)

lemma demo_benchmark_keep:
  "fst (benchmark toy_libs [[''a.bin'']] 2 [''out''] True demo_world) = Inr ()
   \<and> fs (snd (benchmark toy_libs [[''a.bin'']] 2 [''out''] True demo_world)) =
      [[''a.bin''] \<mapsto> File [1, 2, 3],
       [''big.bin''] \<mapsto> File [1, 2, 3, 4, 5, 6, 7, 8, 9],
       [''d''] \<mapsto> Dir,
       [''out''] \<mapsto> Dir,
       [''out'', ''a.bin.AES-GCM.ct'']
         \<mapsto> File (map (\<lambda>i. of_nat (i + 76)) [0..<12] @ [1, 2, 3] @ toy_tag),
       [''out'', ''a.bin.ChaCha20-Poly1305.ct'']
         \<mapsto> File (map (\<lambda>i. of_nat (i + 100)) [0..<12] @ [1, 2, 3] @ toy_tag),
       [''out'', ''raw_results.csv''] \<mapsto> File [],
       [''out'', ''summary_avg.csv''] \<mapsto> File [],
       [''out'', ''time_avg.png''] \<mapsto> File [],
       [''out'', ''cpu_avg.png''] \<mapsto> File []]"
proof -
  from demo_matrix_run obtain W1 where
    m: "run_matrix toy_libs [[''a.bin'']] 2 [''out''] demo_world =
       (Inr [demo_trial_row [''out''] ''AES-GCM'' 1000 1,
             demo_trial_row [''out''] ''AES-GCM'' 1001 2,
             demo_trial_row [''out''] ''ChaCha20-Poly1305'' 1002 1,
             demo_trial_row [''out''] ''ChaCha20-Poly1305'' 1003 2], W1)"
    and f: "fs W1 = [[''a.bin''] \<mapsto> File [1, 2, 3],
       [''big.bin''] \<mapsto> File [1, 2, 3, 4, 5, 6, 7, 8, 9],
       [''d''] \<mapsto> Dir,
       [''out''] \<mapsto> Dir,
       [''out'', ''a.bin.AES-GCM.ct'']
         \<mapsto> File (map (\<lambda>i. of_nat (i + 76)) [0..<12] @ [1, 2, 3] @ toy_tag),
       [''out'', ''a.bin.ChaCha20-Poly1305.ct'']
         \<mapsto> File (map (\<lambda>i. of_nat (i + 100)) [0..<12] @ [1, 2, 3] @ toy_tag)]"
    by blast
  show ?thesis
    by (simp add: benchmark_def m report_def write_file_def parent_ok_def f log_def
        toy_render)
qed

lemma demo_benchmark_clean:
  "fst (benchmark toy_libs [[''a.bin'']] 2 [''out''] False demo_world) = Inr ()
   \<and> fs (snd (benchmark toy_libs [[''a.bin'']] 2 [''out''] False demo_world))
        [''out'', ''a.bin.AES-GCM.ct''] = None
   \<and> fs (snd (benchmark toy_libs [[''a.bin'']] 2 [''out''] False demo_world))
        [''out'', ''a.bin.ChaCha20-Poly1305.ct''] = None
   \<and> fs (snd (benchmark toy_libs [[''a.bin'']] 2 [''out''] False demo_world))
        [''out'', ''raw_results.csv''] = Some (File [])"
proof -
  from demo_matrix_run obtain W1 where
    m: "run_matrix toy_libs [[''a.bin'']] 2 [''out''] demo_world =
       (Inr [demo_trial_row [''out''] ''AES-GCM'' 1000 1,
             demo_trial_row [''out''] ''AES-GCM'' 1001 2,
             demo_trial_row [''out''] ''ChaCha20-Poly1305'' 1002 1,
             demo_trial_row [''out''] ''ChaCha20-Poly1305'' 1003 2], W1)"
    and f: "fs W1 = [[''a.bin''] \<mapsto> File [1, 2, 3],
       [''big.bin''] \<mapsto> File [1, 2, 3, 4, 5, 6, 7, 8, 9],
       [''d''] \<mapsto> Dir,
       [''out''] \<mapsto> Dir,
       [''out'', ''a.bin.AES-GCM.ct'']
         \<mapsto> File (map (\<lambda>i. of_nat (i + 76)) [0..<12] @ [1, 2, 3] @ toy_tag),
       [''out'', ''a.bin.ChaCha20-Poly1305.ct'']
         \<mapsto> File (map (\<lambda>i. of_nat (i + 100)) [0..<12] @ [1, 2, 3] @ toy_tag)]"
    by blast
  show ?thesis
    by (simp add: benchmark_def m report_def write_file_def parent_ok_def f log_def
        toy_render cleanup_fs unique_set demo_trial_row_def is_file_def)
qed


text \<open>
  The claim C5 as it was stated fails when a file is listed twice: with one iteration,
  the file \<open>a.bin\<close> given twice has two rows for AES-GCM, both with index 1.
\<close>

theorem rows_per_pair_counterexample:
  "map iter (pair_rows [''a.bin''] ''AES-GCM''
      (raw_rows_of (run_matrix toy_libs [[''a.bin''], [''a.bin'']] 1 [''out''] demo_world)))
     = [1, 1]
   \<and> \<not> distinct (map iter (pair_rows [''a.bin''] ''AES-GCM''
      (raw_rows_of (run_matrix toy_libs [[''a.bin''], [''a.bin'']] 1 [''out''] demo_world))))
   \<and> length (pair_rows [''a.bin''] ''AES-GCM''
      (raw_rows_of (run_matrix toy_libs [[''a.bin''], [''a.bin'']] 1 [''out''] demo_world)))
     \<noteq> nat 1"
  by (simp add: raw_rows_of_def demo_matrix_twice pair_rows_def demo_trial_row_def)

text \<open>
  The amended C5 on a run where the trials of a first input, a directory, all raise:
  the loops go on, and the file after it has both of its rows.
\<close>

theorem pair_rows_are_successes_witness:
  "[''a.bin''] \<notin> set [[''d'']]
   \<and> fst (file_loop toy_libs [[''d''], [''a.bin'']] demo_key demo_key [''d''] 2 ([], demo_world))
       = Inr [demo_trial_row [''d''] ''AES-GCM'' 1000 1,
              demo_trial_row [''d''] ''AES-GCM'' 1001 2,
              demo_trial_row [''d''] ''ChaCha20-Poly1305'' 1002 1,
              demo_trial_row [''d''] ''ChaCha20-Poly1305'' 1003 2]
   \<and> successes toy_libs [''a.bin''] ''AES-GCM'' demo_key demo_key [''d''] [1..2]
        (log (EvStat [''a.bin''])
          (snd (file_loop toy_libs [[''d'']] demo_key demo_key [''d''] 2 ([], demo_world))))
       = [1, 2]
   \<and> successes toy_libs [''d''] ''AES-GCM'' demo_key demo_key [''d''] [1..2]
        (log (EvStat [''d'']) demo_world) = []"
proof -
  let ?R = "[demo_trial_row [''d''] ''AES-GCM'' 1000 1,
             demo_trial_row [''d''] ''AES-GCM'' 1001 2,
             demo_trial_row [''d''] ''ChaCha20-Poly1305'' 1002 1,
             demo_trial_row [''d''] ''ChaCha20-Poly1305'' 1003 2]"
  let ?FL = "file_loop toy_libs [[''d''], [''a.bin'']] demo_key demo_key [''d''] 2 ([], demo_world)"
  have fl: "file_loop toy_libs ([[''d'']] @ [''a.bin''] # []) demo_key demo_key [''d''] 2
      ([], demo_world) = (Inr ?R, snd ?FL)"
    using demo_loops_dir by (simp add: prod_eq_iff)
  have fl': "file_loop toy_libs ([] @ [''d''] # [[''a.bin'']]) demo_key demo_key [''d''] 2
      ([], demo_world) = (Inr ?R, snd ?FL)"
    using demo_loops_dir by (simp add: prod_eq_iff)
  have n1: "[''a.bin''] \<notin> set [[''d'']]" and n2: "[''a.bin''] \<notin> set []"
    and n3: "[''d''] \<notin> set []" and n4: "[''d''] \<notin> set [[''a.bin'']]"
    by simp_all
  have a: "map iter (pair_rows [''a.bin''] ''AES-GCM'' ?R) = [1, 2]"
    and d: "map iter (pair_rows [''d''] ''AES-GCM'' ?R) = []"
    by (simp_all add: pair_rows_def demo_trial_row_def)
  from pair_rows_are_successes [OF fl n1 n2] obtain rows_pre w_pre where
    p: "file_loop toy_libs [[''d'']] demo_key demo_key [''d''] 2 ([], demo_world)
          = (Inr rows_pre, w_pre)"
    and e: "map iter (pair_rows [''a.bin''] ''AES-GCM'' ?R)
          = successes toy_libs [''a.bin''] ''AES-GCM'' demo_key demo_key [''d''] [1..2]
              (log (EvStat [''a.bin'']) w_pre)"
    by blast
  from p have "w_pre = snd (file_loop toy_libs [[''d'']] demo_key demo_key [''d''] 2 ([], demo_world))"
    by simp
  with e a have s1: "successes toy_libs [''a.bin''] ''AES-GCM'' demo_key demo_key [''d''] [1..2]
        (log (EvStat [''a.bin''])
          (snd (file_loop toy_libs [[''d'']] demo_key demo_key [''d''] 2 ([], demo_world))))
       = [1, 2]"
    by simp
  from pair_rows_are_successes [OF fl' n3 n4] obtain rows_pre' w_pre' where
    p': "file_loop toy_libs [] demo_key demo_key [''d''] 2 ([], demo_world)
          = (Inr rows_pre', w_pre')"
    and e': "map iter (pair_rows [''d''] ''AES-GCM'' ?R)
          = successes toy_libs [''d''] ''AES-GCM'' demo_key demo_key [''d''] [1..2]
              (log (EvStat [''d'']) w_pre')"
    by blast
  from p' have "w_pre' = demo_world"
    by simp
  with e' d have s2: "successes toy_libs [''d''] ''AES-GCM'' demo_key demo_key [''d''] [1..2]
        (log (EvStat [''d'']) demo_world) = []"
    by simp
  from n1 demo_loops_dir s1 s2 show ?thesis
    by blast
qed

lemma upt_0_12: "[0..<12] = [0, 1, 2, 3, 4, 5, 6, 7, 8, 9, 10, 11]"
  by code_simp

lemma nonce_76:
  "map (\<lambda>i. of_nat (i + 76)) [0..<12] = [76, 77, 78, 79, 80, 81, 82, 83, 84, 85, 86, 87 :: byte]"
  by (simp add: upt_0_12)

lemma nonce_100:
  "map (\<lambda>i. of_nat (i + 100)) [0..<12]
     = [100, 101, 102, 103, 104, 105, 106, 107, 108, 109, 110, 111 :: byte]"
  by (simp add: upt_0_12)

text \<open>
  The claim C9 as it was stated fails with two iterations: four trials complete, their
  records name two output files, and the output directory holds two ciphertext files,
  one for each cipher, beside the four files of the report.
\<close>

theorem ciphertext_files_counterexample:
  "map output_file (raw_rows_of (run_matrix toy_libs [[''a.bin'']] 2 [''out''] demo_world)) =
      [[''out'', ''a.bin.AES-GCM.ct''], [''out'', ''a.bin.AES-GCM.ct''],
       [''out'', ''a.bin.ChaCha20-Poly1305.ct''], [''out'', ''a.bin.ChaCha20-Poly1305.ct'']]
   \<and> fst (benchmark toy_libs [[''a.bin'']] 2 [''out''] True demo_world) = Inr ()
   \<and> fs (snd (benchmark toy_libs [[''a.bin'']] 2 [''out''] True demo_world)) =
      [[''a.bin''] \<mapsto> File [1, 2, 3],
       [''big.bin''] \<mapsto> File [1, 2, 3, 4, 5, 6, 7, 8, 9],
       [''d''] \<mapsto> Dir,
       [''out''] \<mapsto> Dir,
       [''out'', ''a.bin.AES-GCM.ct'']
         \<mapsto> File [76, 77, 78, 79, 80, 81, 82, 83, 84, 85, 86, 87, 1, 2, 3, 222, 173, 190, 239],
       [''out'', ''a.bin.ChaCha20-Poly1305.ct'']
         \<mapsto> File [100, 101, 102, 103, 104, 105, 106, 107, 108, 109, 110, 111,
                   1, 2, 3, 222, 173, 190, 239],
       [''out'', ''raw_results.csv''] \<mapsto> File [],
       [''out'', ''summary_avg.csv''] \<mapsto> File [],
       [''out'', ''time_avg.png''] \<mapsto> File [],
       [''out'', ''cpu_avg.png''] \<mapsto> File []]"
proof -
  from demo_matrix_run obtain W1 where
    "run_matrix toy_libs [[''a.bin'']] 2 [''out''] demo_world =
       (Inr [demo_trial_row [''out''] ''AES-GCM'' 1000 1,
             demo_trial_row [''out''] ''AES-GCM'' 1001 2,
             demo_trial_row [''out''] ''ChaCha20-Poly1305'' 1002 1,
             demo_trial_row [''out''] ''ChaCha20-Poly1305'' 1003 2], W1)"
    by blast
  then have "map output_file
      (raw_rows_of (run_matrix toy_libs [[''a.bin'']] 2 [''out''] demo_world)) =
      [[''out'', ''a.bin.AES-GCM.ct''], [''out'', ''a.bin.AES-GCM.ct''],
       [''out'', ''a.bin.ChaCha20-Poly1305.ct''], [''out'', ''a.bin.ChaCha20-Poly1305.ct'']]"
    by (simp add: raw_rows_of_def demo_trial_row_def)
  moreover have "fst (benchmark toy_libs [[''a.bin'']] 2 [''out''] True demo_world) = Inr ()"
    using demo_benchmark_keep by (rule conjunct1)
  moreover have "fs (snd (benchmark toy_libs [[''a.bin'']] 2 [''out''] True demo_world)) =
      [[''a.bin''] \<mapsto> File [1, 2, 3],
       [''big.bin''] \<mapsto> File [1, 2, 3, 4, 5, 6, 7, 8, 9],
       [''d''] \<mapsto> Dir,
       [''out''] \<mapsto> Dir,
       [''out'', ''a.bin.AES-GCM.ct'']
         \<mapsto> File [76, 77, 78, 79, 80, 81, 82, 83, 84, 85, 86, 87, 1, 2, 3, 222, 173, 190, 239],
       [''out'', ''a.bin.ChaCha20-Poly1305.ct'']
         \<mapsto> File [100, 101, 102, 103, 104, 105, 106, 107, 108, 109, 110, 111,
                   1, 2, 3, 222, 173, 190, 239],
       [''out'', ''raw_results.csv''] \<mapsto> File [],
       [''out'', ''summary_avg.csv''] \<mapsto> File [],
       [''out'', ''time_avg.png''] \<mapsto> File [],
       [''out'', ''cpu_avg.png''] \<mapsto> File []]"
    unfolding demo_benchmark_keep [THEN conjunct2]
    by (simp only: nonce_76 nonce_100 toy_tag_def append.simps)
  ultimately show ?thesis
    by (intro conjI)
qed

text \<open>The amended C9 on the same run, with the ciphertexts kept and with them removed.\<close>

theorem ciphertext_files_witness:
  "(\<exists>rows w1 w'. run_matrix toy_libs [[''a.bin'']] 2 [''out''] demo_world = (Inr rows, w1)
       \<and> report toy_libs rows [''out''] True w1 = (Inr (), w')
       \<and> demo_trial_row [''out''] ''AES-GCM'' 1001 2 \<in> set rows
       \<and> output_file (demo_trial_row [''out''] ''AES-GCM'' 1001 2)
            = [''out'', ''a.bin.AES-GCM.ct'']
       \<and> is_file (fs w' [''out'', ''a.bin.AES-GCM.ct'']))
   \<and> (\<exists>rows w1 w'. run_matrix toy_libs [[''a.bin'']] 2 [''out''] demo_world = (Inr rows, w1)
       \<and> report toy_libs rows [''out''] False w1 = (Inr (), w')
       \<and> demo_trial_row [''out''] ''AES-GCM'' 1001 2 \<in> set rows
       \<and> fs w' [''out'', ''a.bin.AES-GCM.ct''] = None)"
proof -
  let ?R = "[demo_trial_row [''out''] ''AES-GCM'' 1000 1,
             demo_trial_row [''out''] ''AES-GCM'' 1001 2,
             demo_trial_row [''out''] ''ChaCha20-Poly1305'' 1002 1,
             demo_trial_row [''out''] ''ChaCha20-Poly1305'' 1003 2]"
  let ?r = "demo_trial_row [''out''] ''AES-GCM'' 1001 2"
  from demo_matrix_run obtain W1 where
    m: "run_matrix toy_libs [[''a.bin'']] 2 [''out''] demo_world = (Inr ?R, W1)"
    by blast
  let ?K = "snd (report toy_libs ?R [''out''] True W1)"
  let ?C = "snd (report toy_libs ?R [''out''] False W1)"
  have k: "report toy_libs ?R [''out''] True W1 = (Inr (), ?K)"
    using demo_benchmark_keep by (simp add: benchmark_def m prod_eq_iff)
  have c: "report toy_libs ?R [''out''] False W1 = (Inr (), ?C)"
    using demo_benchmark_clean by (simp add: benchmark_def m prod_eq_iff)
  have o: "output_file ?r = [''out'', ''a.bin.AES-GCM.ct'']"
    by (simp add: demo_trial_row_def)
  have mem: "?r \<in> set ?R"
    by simp
  have "True \<longrightarrow> (\<forall>r\<in>set ?R. is_file (fs ?K (output_file r)))"
    by (rule ciphertext_files [OF m k, THEN conjunct2, THEN conjunct1])
  then have "\<forall>r\<in>set ?R. is_file (fs ?K (output_file r))"
    by (simp only: simp_thms)
  from bspec [OF this mem] have kept: "is_file (fs ?K [''out'', ''a.bin.AES-GCM.ct''])"
    by (simp only: o)
  have "\<not> False \<longrightarrow> (\<forall>r\<in>set ?R. fs ?C (output_file r) = None)"
    by (rule ciphertext_files [OF m c, THEN conjunct2, THEN conjunct2, THEN conjunct1])
  then have "\<forall>r\<in>set ?R. fs ?C (output_file r) = None"
    by (simp only: simp_thms)
  from bspec [OF this mem] have gone: "fs ?C [''out'', ''a.bin.AES-GCM.ct''] = None"
    by (simp only: o)
  have "\<exists>rows w1 w'. run_matrix toy_libs [[''a.bin'']] 2 [''out''] demo_world = (Inr rows, w1)
       \<and> report toy_libs rows [''out''] True w1 = (Inr (), w')
       \<and> ?r \<in> set rows \<and> output_file ?r = [''out'', ''a.bin.AES-GCM.ct'']
       \<and> is_file (fs w' [''out'', ''a.bin.AES-GCM.ct''])"
    using m k mem o kept by (intro exI [of _ ?R] exI [of _ W1] exI [of _ ?K] conjI)
  moreover
  have "\<exists>rows w1 w'. run_matrix toy_libs [[''a.bin'']] 2 [''out''] demo_world = (Inr rows, w1)
       \<and> report toy_libs rows [''out''] False w1 = (Inr (), w')
       \<and> ?r \<in> set rows \<and> fs w' [''out'', ''a.bin.AES-GCM.ct''] = None"
    using m c mem gone by (intro exI [of _ ?R] exI [of _ W1] exI [of _ ?C] conjI)
  ultimately show ?thesis
    by (rule conjI)
qed

end
